(* ===== verification/Prelude.thy ===== *)
theory Prelude
  imports Complex_Main "HOL-Library.Sublist"
begin

text \<open>
  Shared vocabulary of the development: the Python exceptions the OCR service can raise
  (as values of an error datatype), the result type \<open>'a res\<close> of fallible operations,
  sequencing of fallible operations, and generic lemmas on results and lists that the
  component theories use through \<open>simp add:\<close> and the collections declared here.
\<close>

named_theorems res_simps "evaluation rules for the result type"
named_theorems py_simps "evaluation rules of the Python value model"

section \<open>Python exceptions as values\<close>

text \<open>
  One constructor per exception class the program can raise or let through. The
  payload is the message where the message is observable (it is printed by the
  interpreter's traceback); \<open>Cv2Error\<close> and \<open>EngineError\<close> stand for the
  exceptions raised inside the external image library and OCR engine, which the program
  lets through, and \<open>UnicodeEncodeError\<close> for a standard output that cannot encode the
  printed text.
\<close>

datatype pyerr =
    ValueError string
  | TypeError string
  | IndexError string
  | ZeroDivisionError string
  | OverflowError string
  | Cv2Error string
  | EngineError string
  | UnicodeEncodeError string

type_synonym 'a res = "pyerr + 'a"

definition bind_res :: "'a res \<Rightarrow> ('a \<Rightarrow> 'b res) \<Rightarrow> 'b res" where
  "bind_res r f = (case r of Inl e \<Rightarrow> Inl e | Inr x \<Rightarrow> f x)"

lemma bind_res_Inl [simp, res_simps]: "bind_res (Inl e) f = Inl e"
  and bind_res_Inr [simp, res_simps]: "bind_res (Inr x) f = f x"
  by (simp_all add: bind_res_def)

lemma bind_res_eq_Inr:
  "bind_res r f = Inr y \<longleftrightarrow> (\<exists>x. r = Inr x \<and> f x = Inr y)"
  by (cases r) simp_all

lemma bind_res_eq_Inl:
  "bind_res r f = Inl e \<longleftrightarrow> r = Inl e \<or> (\<exists>x. r = Inr x \<and> f x = Inl e)"
  by (cases r) simp_all

text \<open>
  Running a fallible operation over a list in order, stopping at the first exception,
  as a Python \<^verbatim>\<open>for\<close> loop or list comprehension does.
\<close>

fun map_res :: "('a \<Rightarrow> 'b res) \<Rightarrow> 'a list \<Rightarrow> 'b list res" where
  "map_res f [] = Inr []"
| "map_res f (x # xs) = bind_res (f x) (\<lambda>y. bind_res (map_res f xs) (\<lambda>ys. Inr (y # ys)))"

lemma map_res_Inr_length:
  "map_res f xs = Inr ys \<Longrightarrow> length ys = length xs"
  by (induction xs arbitrary: ys) (auto simp: bind_res_eq_Inr)

lemma map_res_Inr_nth:
  "map_res f xs = Inr ys \<Longrightarrow> i < length xs \<Longrightarrow> f (xs ! i) = Inr (ys ! i)"
proof (induction xs arbitrary: ys i)
  case Nil
  then show ?case by simp
next
  case (Cons x xs)
  then show ?case by (cases i) (auto simp: bind_res_eq_Inr)
qed

lemma map_res_all_Inr:
  "(\<forall>x\<in>set xs. f x = Inr (g x)) \<Longrightarrow> map_res f xs = Inr (map g xs)"
  by (induction xs) auto

lemma map_res_Inr_iff:
  "map_res f xs = Inr ys \<longleftrightarrow> list_all2 (\<lambda>x y. f x = Inr y) xs ys"
proof (induction xs arbitrary: ys)
  case Nil
  then show ?case by auto
next
  case (Cons x xs)
  then show ?case by (cases ys) (auto simp: bind_res_eq_Inr)
qed

text \<open>The first exception of the loop is the exception of some element.\<close>

lemma map_res_Inl:
  "map_res f xs = Inl e \<Longrightarrow> \<exists>x\<in>set xs. f x = Inl e"
proof (induction xs)
  case Nil
  then show ?case by simp
next
  case (Cons x xs)
  then show ?case by (auto simp: bind_res_eq_Inl)
qed

text \<open>
  Exactly: the loop raises \<open>e\<close> iff some element raises \<open>e\<close> and every element before
  it succeeds.
\<close>

lemma map_res_Inl_iff:
  "map_res f xs = Inl e \<longleftrightarrow>
     (\<exists>pre x post. xs = pre @ x # post \<and> list_all (\<lambda>y. \<not> isl (f y)) pre \<and> f x = Inl e)"
proof (induction xs)
  case Nil
  then show ?case by simp
next
  case (Cons a xs)
  show ?case
  proof (cases "f a")
    case (Inl e')
    show ?thesis
    proof
      assume "map_res f (a # xs) = Inl e"
      with Inl have "f a = Inl e" by simp
      then show "\<exists>pre x post. a # xs = pre @ x # post \<and> list_all (\<lambda>y. \<not> isl (f y)) pre \<and> f x = Inl e"
        by (intro exI [of _ "[]"] exI [of _ a] exI [of _ xs]) simp
    next
      assume "\<exists>pre x post. a # xs = pre @ x # post \<and> list_all (\<lambda>y. \<not> isl (f y)) pre \<and> f x = Inl e"
      then obtain pre x post where "a # xs = pre @ x # post" "list_all (\<lambda>y. \<not> isl (f y)) pre"
        "f x = Inl e" by blast
      with Inl show "map_res f (a # xs) = Inl e" by (cases pre) auto
    qed
  next
    case (Inr b)
    have "map_res f (a # xs) = Inl e \<longleftrightarrow> map_res f xs = Inl e"
      using Inr by (cases "map_res f xs") simp_all
    also have "\<dots> \<longleftrightarrow> (\<exists>pre x post. xs = pre @ x # post \<and> list_all (\<lambda>y. \<not> isl (f y)) pre \<and> f x = Inl e)"
      by (rule Cons.IH)
    also have "\<dots> \<longleftrightarrow> (\<exists>pre x post. a # xs = pre @ x # post \<and> list_all (\<lambda>y. \<not> isl (f y)) pre \<and> f x = Inl e)"
    proof
      assume "\<exists>pre x post. xs = pre @ x # post \<and> list_all (\<lambda>y. \<not> isl (f y)) pre \<and> f x = Inl e"
      then obtain pre x post where "xs = pre @ x # post" "list_all (\<lambda>y. \<not> isl (f y)) pre"
        "f x = Inl e" by blast
      with Inr show "\<exists>pre x post. a # xs = pre @ x # post \<and> list_all (\<lambda>y. \<not> isl (f y)) pre \<and> f x = Inl e"
        by (intro exI [of _ "a # pre"] exI [of _ x] exI [of _ post]) simp
    next
      assume "\<exists>pre x post. a # xs = pre @ x # post \<and> list_all (\<lambda>y. \<not> isl (f y)) pre \<and> f x = Inl e"
      then obtain pre x post where d: "a # xs = pre @ x # post" "list_all (\<lambda>y. \<not> isl (f y)) pre"
        "f x = Inl e" by blast
      show "\<exists>pre x post. xs = pre @ x # post \<and> list_all (\<lambda>y. \<not> isl (f y)) pre \<and> f x = Inl e"
      proof (cases pre)
        case Nil
        with d Inr show ?thesis by simp
      next
        case (Cons p pre')
        with d show ?thesis by auto
      qed
    qed
    finally show ?thesis .
  qed
qed

section \<open>Truncation towards zero\<close>

text \<open>
  Python's \<^verbatim>\<open>int(x)\<close> on a number truncates towards zero; HOL's \<open>div\<close> on \<open>int\<close>
  rounds towards minus infinity. \<open>tdiv n d\<close> is the truncating quotient for \<open>d > 0\<close>.
\<close>

definition tdiv :: "int \<Rightarrow> int \<Rightarrow> int" where
  "tdiv n d = (if 0 \<le> n then n div d else - ((- n) div d))"

lemma tdiv_mono:
  assumes d: "0 < d" and le: "n \<le> n'"
  shows "tdiv n d \<le> tdiv n' d"
proof (cases "0 \<le> n")
  case True
  with le d show ?thesis by (simp add: tdiv_def zdiv_mono1)
next
  case False
  have neg: "- ((- n) div d) \<le> 0" using False d by (simp add: pos_imp_zdiv_nonneg_iff)
  show ?thesis
  proof (cases "0 \<le> n'")
    case True
    then have "0 \<le> n' div d" using d by (simp add: pos_imp_zdiv_nonneg_iff)
    with neg False True show ?thesis by (simp add: tdiv_def)
  next
    case n'neg: False
    have "(- n') div d \<le> (- n) div d" using le d by (simp add: zdiv_mono1)
    with False n'neg show ?thesis by (simp add: tdiv_def)
  qed
qed

end
