(* ===== verification/Float64.thy ===== *)
theory Float64
  imports Prelude
begin

text \<open>
  IEEE 754 binary64, the representation of Python's \<^verbatim>\<open>float\<close>. A finite double is the
  dyadic rational \<open>m * 2 ^ e\<close>; the operations the OCR service performs on floats
  (true division of two ints, int times float, \<^verbatim>\<open>float(int)\<close>, \<^verbatim>\<open>int(float)\<close>,
  comparisons) are computed here with integer arithmetic only, rounding to nearest with
  ties to even at 53 bits of precision, as CPython does.
\<close>

section \<open>Representation\<close>

datatype pyfloat = Fin int int | PInf | NInf | NaN

definition fval :: "int \<Rightarrow> int \<Rightarrow> rat" where
  "fval m e = of_int m * 2 powi e"

text \<open>Binary64: 53 bits of significand, least normal exponent \<open>-1022\<close>, overflow at \<open>2 ^ 1024\<close>.\<close>

abbreviation (input) prec :: nat where "prec \<equiv> 53"

section \<open>Floor of the logarithm\<close>

text \<open>\<open>nlog b n\<close> is \<open>\<lfloor>log b n\<rfloor>\<close> for a base \<open>b \<ge> 2\<close> and \<open>n > 0\<close>.\<close>

fun nlog :: "nat \<Rightarrow> nat \<Rightarrow> nat" where
  "nlog b n = (if b < 2 then 0 else if n < b then 0 else Suc (nlog b (n div b)))"

declare nlog.simps [simp del]

lemma nlog_bounds: "2 \<le> b \<Longrightarrow> 0 < n \<Longrightarrow> b ^ nlog b n \<le> n \<and> n < b ^ Suc (nlog b n)"
proof (induction b n rule: nlog.induct)
  case (1 b n)
  show ?case
  proof (cases "n < b")
    case True
    with "1.prems" show ?thesis by (simp add: nlog.simps)
  next
    case False
    then have "0 < n div b" using "1.prems" by (simp add: div_greater_zero_iff)
    with "1.IH" False "1.prems" have ih: "b ^ nlog b (n div b) \<le> n div b \<and> n div b < b ^ Suc (nlog b (n div b))"
      by simp
    from False "1.prems" have "nlog b n = Suc (nlog b (n div b))" by (simp add: nlog.simps)
    moreover have "b * (n div b) \<le> n" by simp
    moreover have "n < b * (n div b + 1)"
    proof -
      have "n mod b < b" using "1.prems" by simp
      moreover have "b * (n div b) + n mod b = n" by simp
      moreover have "b * (n div b + 1) = b * (n div b) + b" by simp
      ultimately show ?thesis by linarith
    qed
    moreover have "b * (n div b + 1) \<le> b * b ^ Suc (nlog b (n div b))"
      using ih by (intro mult_le_mono2) simp
    moreover have "b * b ^ nlog b (n div b) \<le> b * (n div b)"
      using ih by (intro mult_le_mono2) simp
    ultimately show ?thesis by (simp only: power_Suc) linarith
  qed
qed

text \<open>
  \<open>flog b n d\<close> is \<open>\<lfloor>log b (n / d)\<rfloor>\<close> for positive \<open>n\<close> and \<open>d\<close>: the exponent of
  the leading digit of the quotient in base \<open>b\<close>.
\<close>

definition flog :: "nat \<Rightarrow> int \<Rightarrow> int \<Rightarrow> int" where
  "flog b n d = (if d \<le> n then int (nlog b (nat (n div d)))
                 else - int (Suc (nlog b (nat ((d - 1) div n)))))"

abbreviation flog2 :: "int \<Rightarrow> int \<Rightarrow> int" where
  "flog2 \<equiv> flog 2"

lemma nlog_int_bounds:
  assumes "2 \<le> b" "0 < p"
  shows "int b ^ nlog b (nat p) \<le> p \<and> p < int b ^ Suc (nlog b (nat p))"
proof -
  have "b ^ nlog b (nat p) \<le> nat p \<and> nat p < b ^ Suc (nlog b (nat p))"
    using assms by (intro nlog_bounds) simp_all
  then have "int (b ^ nlog b (nat p)) \<le> int (nat p) \<and> int (nat p) < int (b ^ Suc (nlog b (nat p)))"
    by (simp only: of_nat_le_iff of_nat_less_iff)
  then show ?thesis using assms by simp
qed

lemma div_mult_bounds:
  assumes "0 < (d::int)"
  shows "n div d * d \<le> n \<and> n < (n div d + 1) * d"
proof -
  have e: "n div d * d + n mod d = n" by (rule div_mult_mod_eq)
  have "0 \<le> n mod d" "n mod d < d" using assms by simp_all
  moreover have "(n div d + 1) * d = n div d * d + d" by (simp add: distrib_right)
  ultimately show ?thesis using e by linarith
qed

lemma flog_bounds:
  assumes b: "2 \<le> b" and n: "0 < n" and d: "0 < d"
  shows "(of_nat b :: rat) powi flog b n d \<le> of_int n / of_int d
         \<and> of_int n / of_int d < (of_nat b :: rat) powi (flog b n d + 1)"
proof (cases "d \<le> n")
  case True
  define q where "q = n div d"
  define k where "k = nlog b (nat q)"
  have q1: "0 < q" using True d by (simp add: q_def pos_imp_zdiv_pos_iff)
  with nlog_int_bounds [OF b] have kb: "int b ^ k \<le> q \<and> q < int b ^ Suc k" by (simp add: k_def)
  have lo: "q * d \<le> n" and hi: "n < (q + 1) * d"
    using div_mult_bounds [OF d, of n] by (simp_all add: q_def)
  have "(of_nat b :: rat) ^ k \<le> of_int q" using kb of_int_le_iff [of "int b ^ k" q, where 'a = rat] by simp
  also have "of_int q \<le> of_int n / (of_int d :: rat)"
    using lo d by (simp add: le_divide_eq flip: of_int_mult)
  finally have A: "(of_nat b :: rat) ^ k \<le> of_int n / of_int d" .
  have "(of_int n :: rat) < of_int (q + 1) * of_int d"
    using hi of_int_less_iff [of n "(q + 1) * d", where 'a = rat] by simp
  then have "of_int n / (of_int d :: rat) < of_int (q + 1)"
    using d by (simp add: divide_less_eq)
  also have "of_int (q + 1) \<le> (of_nat b :: rat) ^ Suc k"
    using kb of_int_le_iff [of "q + 1" "int b ^ Suc k", where 'a = rat] by simp
  finally have B: "of_int n / of_int d < (of_nat b :: rat) ^ Suc k" .
  have "flog b n d = int k" using True by (simp add: flog_def k_def q_def)
  with A B b show ?thesis by (simp add: power_int_add mult.commute)
next
  case False
  define p where "p = (d - 1) div n"
  define j where "j = nlog b (nat p)"
  have p1: "0 < p" using False n by (simp add: p_def pos_imp_zdiv_pos_iff)
  with nlog_int_bounds [OF b] have jb: "int b ^ j \<le> p \<and> p < int b ^ Suc j" by (simp add: j_def)
  have plo: "p * n \<le> d - 1" and phi: "d - 1 < (p + 1) * n"
    using div_mult_bounds [OF n, of "d - 1"] by (simp_all add: p_def)
  have "int b ^ j * n \<le> p * n" using jb n by simp
  with plo have up: "int b ^ j * n < d" by simp
  have "(p + 1) * n \<le> int b ^ Suc j * n" using jb n by (intro mult_right_mono) simp_all
  with phi have lw: "d \<le> int b ^ Suc j * n" by simp
  have fl: "flog b n d = - int (Suc j)" using False by (simp add: flog_def j_def p_def)
  have A: "inverse ((of_nat b :: rat) ^ Suc j) \<le> of_int n / of_int d"
  proof -
    have "of_int d \<le> (of_nat b :: rat) ^ Suc j * of_int n"
      using lw of_int_le_iff [of d "int b ^ Suc j * n", where 'a = rat] by simp
    then show ?thesis using n d b by (simp add: field_simps)
  qed
  have B: "of_int n / of_int d < inverse ((of_nat b :: rat) ^ j)"
  proof -
    have "(of_nat b :: rat) ^ j * of_int n < of_int d"
      using up of_int_less_iff [of "int b ^ j * n" d, where 'a = rat] by simp
    then show ?thesis using n d b by (simp add: field_simps)
  qed
  have p1: "(of_nat b :: rat) powi (flog b n d + 1) = inverse (of_nat b ^ j)"
  proof -
    have "flog b n d + 1 = - int j" using fl by simp
    then show ?thesis by (simp add: power_int_minus)
  qed
  have p0: "(of_nat b :: rat) powi flog b n d = inverse (of_nat b ^ Suc j)"
    using fl by (simp add: power_int_minus del: of_nat_Suc power_Suc)
  show ?thesis using A B by (simp only: p0 p1)
qed

lemma flog2_bounds:
  assumes n: "0 < n" and d: "0 < d"
  shows "(2::rat) powi flog2 n d \<le> of_int n / of_int d
         \<and> of_int n / of_int d < (2::rat) powi (flog2 n d + 1)"
  using flog_bounds [of 2 n d] assms by simp

section \<open>Rounding to nearest, ties to even\<close>

text \<open>\<open>rne_div n d\<close> is \<open>n / d\<close> rounded to the nearest integer, ties to the even one.\<close>

definition rne_div :: "int \<Rightarrow> int \<Rightarrow> int" where
  "rne_div n d = (let q = n div d; r = n mod d in
     if d < 2 * r then q + 1 else if 2 * r < d then q else if even q then q else q + 1)"

lemma rne_div_err:
  assumes d: "0 < d"
  shows "\<bar>(of_int (rne_div n d) :: rat) - of_int n / of_int d\<bar> \<le> 1 / 2"
proof -
  define q where "q = n div d"
  define r where "r = n mod d"
  have r: "0 \<le> r" "r < d" using d by (simp_all add: r_def)
  have nd: "(of_int n :: rat) / of_int d = of_int q + of_int r / of_int d"
  proof -
    have "n = q * d + r" by (simp add: q_def r_def)
    then have "(of_int n :: rat) = of_int q * of_int d + of_int r" by (simp only: of_int_add of_int_mult)
    then show ?thesis using d by (simp add: field_simps)
  qed
  define x where "x = (of_int r :: rat) / of_int d"
  have x0: "0 \<le> x" and x1: "x \<le> 1" using r d by (simp_all add: x_def)
  have rq: "rne_div n d = (if d < 2 * r then q + 1 else if 2 * r < d then q
                            else if even q then q else q + 1)"
    by (simp add: rne_div_def Let_def q_def r_def)
  show ?thesis
  proof (cases "d < 2 * r")
    case True
    then have "1 / 2 < x" using d by (simp add: x_def field_simps flip: of_int_mult)
    with True x1 show ?thesis by (simp add: rq nd x_def [symmetric])
  next
    case notgt: False
    show ?thesis
    proof (cases "2 * r < d")
      case True
      then have "x < 1 / 2" using d by (simp add: x_def field_simps flip: of_int_mult)
      with True notgt x0 show ?thesis by (simp add: rq nd x_def [symmetric])
    next
      case False
      with notgt have "x = 1 / 2" using d by (simp add: x_def field_simps flip: of_int_mult)
      with False notgt show ?thesis by (simp add: rq nd x_def [symmetric])
    qed
  qed
qed

text \<open>
  \<open>rne_scaled a d E\<close> rounds \<open>(a / d) / 2 ^ E\<close> to the nearest integer: the significand
  of \<open>a / d\<close> in units of \<open>2 ^ E\<close>.
\<close>

definition rne_scaled :: "int \<Rightarrow> int \<Rightarrow> int \<Rightarrow> int" where
  "rne_scaled a d E =
     (if 0 \<le> E then rne_div a (d * 2 ^ nat E) else rne_div (a * 2 ^ nat (- E)) d)"

lemma rne_scaled_err:
  assumes d: "0 < d"
  shows "\<bar>(of_int (rne_scaled a d E) :: rat) - (of_int a / of_int d) / 2 powi E\<bar> \<le> 1 / 2"
proof (cases "0 \<le> E")
  case True
  have pw: "(2::rat) powi E = 2 ^ nat E" using True by (simp add: power_int_def)
  have q: "(of_int a / of_int d) / (2::rat) powi E = of_int a / of_int (d * 2 ^ nat E)"
    by (simp add: pw)
  have b: "\<bar>(of_int (rne_div a (d * 2 ^ nat E)) :: rat) - of_int a / of_int (d * 2 ^ nat E)\<bar> \<le> 1 / 2"
    by (rule rne_div_err) (simp add: d)
  have "rne_scaled a d E = rne_div a (d * 2 ^ nat E)" using True by (simp add: rne_scaled_def)
  with q b show ?thesis by (simp only:)
next
  case False
  have q: "(of_int a / of_int d) / (2::rat) powi E = of_int (a * 2 ^ nat (- E)) / of_int d"
    using False by (simp add: power_int_def field_simps)
  have "rne_scaled a d E = rne_div (a * 2 ^ nat (- E)) d" using False by (simp add: rne_scaled_def)
  with q rne_div_err [OF d, of "a * 2 ^ nat (- E)"] show ?thesis by (simp only:)
qed

section \<open>Rounding an exact quotient to binary64\<close>

text \<open>
  \<open>round_frac n d\<close> is the double nearest to \<open>n / d\<close> (for \<open>d > 0\<close>), ties to even:
  the exponent of the last significand bit is \<open>E\<close>, 52 below the leading bit and never
  below \<open>-1074\<close> (subnormals); a result of magnitude \<open>2 ^ 1024\<close> or more overflows to
  an infinity. This is the rounding CPython performs in \<^verbatim>\<open>int / int\<close>, in
  \<^verbatim>\<open>float(int)\<close> and in every float multiplication.
\<close>

definition round_exp :: "int \<Rightarrow> int \<Rightarrow> int" where
  "round_exp a d = max (flog2 a d) (-1022) - 52"

definition round_frac :: "int \<Rightarrow> int \<Rightarrow> pyfloat" where
  "round_frac n d =
     (if n = 0 then Fin 0 0
      else let a = \<bar>n\<bar>; E = round_exp a d; m = rne_scaled a d E in
        if E < 0 then Fin (sgn n * m) E
        else if 2 ^ 1024 \<le> m * 2 ^ nat E then (if 0 < n then PInf else NInf)
        else Fin (sgn n * m) E)"

text \<open>The exact dyadic \<open>m * 2 ^ e\<close> as a fraction with positive denominator.\<close>

definition round_dyadic :: "int \<Rightarrow> int \<Rightarrow> pyfloat" where
  "round_dyadic m e =
     (if 0 \<le> e then round_frac (m * 2 ^ nat e) 1 else round_frac m (2 ^ nat (- e)))"

lemma round_frac_pos_Fin:
  assumes "0 < n" "round_frac n d = Fin m E"
  shows "E = round_exp n d \<and> m = rne_scaled n d (round_exp n d)"
  using assms by (auto simp: round_frac_def Let_def split: if_splits)

lemma flog2_normal:
  assumes n: "0 < n" and d: "0 < d" and normal: "2 powi (-1022) \<le> of_int n / (of_int d :: rat)"
  shows "-1022 \<le> flog2 n d"
proof (rule ccontr)
  assume "\<not> -1022 \<le> flog2 n d"
  then have "flog2 n d + 1 \<le> -1022" by simp
  then have "(2::rat) powi (flog2 n d + 1) \<le> 2 powi (-1022)" by (rule power_int_increasing) simp
  with flog2_bounds [OF n d] normal show False by simp
qed

text \<open>
  The relative error of rounding a positive quotient in the normal range is at most
  \<open>2 ^ -53\<close>, the unit roundoff of binary64.
\<close>

theorem round_frac_rel_err:
  assumes n: "0 < n" and d: "0 < d" and fin: "round_frac n d = Fin m E"
    and normal: "2 powi (-1022) \<le> of_int n / (of_int d :: rat)"
  shows "\<bar>fval m E - of_int n / of_int d\<bar> \<le> (of_int n / of_int d) / 2 ^ 53"
proof -
  define k where "k = flog2 n d"
  have E: "E = k - 52" and m: "m = rne_scaled n d E"
    using round_frac_pos_Fin [OF n fin] flog2_normal [OF n d normal]
    by (simp_all add: round_exp_def k_def)
  have p: "(0::rat) < 2 powi E" by simp
  have "fval m E - of_int n / of_int d
        = (of_int m - (of_int n / of_int d) / 2 powi E) * 2 powi E"
    using p by (simp add: fval_def field_simps)
  then have "\<bar>fval m E - of_int n / of_int d\<bar>
        = \<bar>of_int m - (of_int n / of_int d) / 2 powi E\<bar> * 2 powi E"
    using p by (simp add: abs_mult)
  also have "\<dots> \<le> 1 / 2 * 2 powi E"
    using rne_scaled_err [OF d, of n E] p unfolding m by (intro mult_right_mono) simp_all
  also have "(1 / 2 :: rat) * 2 powi E = 2 powi k / 2 ^ 53"
    by (simp add: E power_int_diff)
  also have "\<dots> \<le> (of_int n / of_int d) / 2 ^ 53"
    using flog2_bounds [OF n d] by (simp add: k_def divide_right_mono)
  finally show ?thesis .
qed

section \<open>The float operations of the program\<close>

text \<open>Exact comparison of two dyadics, on integers.\<close>

definition dyadic_less :: "int \<Rightarrow> int \<Rightarrow> int \<Rightarrow> int \<Rightarrow> bool" where
  "dyadic_less m1 e1 m2 e2 =
     (let e = min e1 e2 in m1 * 2 ^ nat (e1 - e) < m2 * 2 ^ nat (e2 - e))"

lemma fval_shift:
  assumes "e \<le> e1"
  shows "fval m1 e1 = of_int (m1 * 2 ^ nat (e1 - e)) * 2 powi e"
proof -
  have "(2::rat) powi e1 = 2 powi (e1 - e) * 2 powi e" by (simp add: power_int_add [symmetric])
  also have "(2::rat) powi (e1 - e) = 2 ^ nat (e1 - e)" using assms by (simp add: power_int_def)
  finally show ?thesis by (simp add: fval_def)
qed

lemma dyadic_less_iff: "dyadic_less m1 e1 m2 e2 \<longleftrightarrow> fval m1 e1 < fval m2 e2"
proof -
  define e where "e = min e1 e2"
  have "fval m1 e1 = of_int (m1 * 2 ^ nat (e1 - e)) * 2 powi e"
    by (rule fval_shift) (simp add: e_def)
  moreover have "fval m2 e2 = of_int (m2 * 2 ^ nat (e2 - e)) * 2 powi e"
    by (rule fval_shift) (simp add: e_def)
  moreover have "(0::rat) < 2 powi e" by simp
  ultimately have "fval m1 e1 < fval m2 e2 \<longleftrightarrow>
      (of_int (m1 * 2 ^ nat (e1 - e)) :: rat) < of_int (m2 * 2 ^ nat (e2 - e))"
    by (simp only: mult_less_cancel_right_pos)
  then show ?thesis by (simp only: dyadic_less_def Let_def e_def [symmetric] of_int_less_iff)
qed

text \<open>Python's \<^verbatim>\<open><\<close> on floats: every comparison with NaN is false.\<close>

fun flt :: "pyfloat \<Rightarrow> pyfloat \<Rightarrow> bool" where
  "flt NaN y = False"
| "flt x NaN = False"
| "flt PInf y = False"
| "flt NInf y = (y \<noteq> NInf)"
| "flt (Fin m e) PInf = True"
| "flt (Fin m e) NInf = False"
| "flt (Fin m1 e1) (Fin m2 e2) = dyadic_less m1 e1 m2 e2"

text \<open>
  \<^verbatim>\<open>float(i)\<close> and the implicit conversion of an int operand in \<^verbatim>\<open>i * x\<close>: the
  nearest double, or \<^verbatim>\<open>OverflowError\<close> when it would be infinite.
\<close>

definition float_of_int :: "int \<Rightarrow> pyfloat res" where
  "float_of_int i = (case round_frac i 1 of
       Fin m e \<Rightarrow> Inr (Fin m e)
     | _ \<Rightarrow> Inl (OverflowError ''int too large to convert to float''))"

text \<open>\<^verbatim>\<open>a / b\<close> on two ints: the correctly rounded quotient (CPython's long_true_divide).\<close>

definition int_truediv :: "int \<Rightarrow> int \<Rightarrow> pyfloat res" where
  "int_truediv a b =
     (if b = 0 then Inl (ZeroDivisionError ''division by zero'')
      else case round_frac (sgn b * a) \<bar>b\<bar> of
          Fin m e \<Rightarrow> Inr (Fin m e)
        | _ \<Rightarrow> Inl (OverflowError ''integer division result too large for a float''))"

fun fsign :: "pyfloat \<Rightarrow> int" where
  "fsign (Fin m e) = sgn m"
| "fsign PInf = 1"
| "fsign NInf = -1"
| "fsign NaN = 0"

text \<open>IEEE multiplication: the exact product rounded; \<open>0 * \<infinity>\<close> is NaN.\<close>

fun fmul :: "pyfloat \<Rightarrow> pyfloat \<Rightarrow> pyfloat" where
  "fmul NaN y = NaN"
| "fmul x NaN = NaN"
| "fmul (Fin m1 e1) (Fin m2 e2) = round_dyadic (m1 * m2) (e1 + e2)"
| "fmul x y = (let s = fsign x * fsign y in if s = 0 then NaN else if 0 < s then PInf else NInf)"

text \<open>\<^verbatim>\<open>i * x\<close> for an int \<open>i\<close> and a float \<open>x\<close> (CPython's float_mul).\<close>

definition int_mul_float :: "int \<Rightarrow> pyfloat \<Rightarrow> pyfloat res" where
  "int_mul_float i x = bind_res (float_of_int i) (\<lambda>f. Inr (fmul f x))"

text \<open>\<^verbatim>\<open>int(x)\<close> on a float: truncation towards zero.\<close>

fun float_trunc :: "pyfloat \<Rightarrow> int res" where
  "float_trunc (Fin m e) = Inr (if 0 \<le> e then m * 2 ^ nat e else tdiv m (2 ^ nat (- e)))"
| "float_trunc NaN = Inl (ValueError ''cannot convert float NaN to integer'')"
| "float_trunc _ = Inl (OverflowError ''cannot convert float infinity to integer'')"

definition trunc_rat :: "rat \<Rightarrow> int" where
  "trunc_rat q = (if 0 \<le> q then \<lfloor>q\<rfloor> else \<lceil>q\<rceil>)"

lemma trunc_rat_of_int [simp]: "trunc_rat (of_int z) = z"
  by (simp add: trunc_rat_def)

lemma trunc_rat_mono:
  assumes le: "p \<le> q"
  shows "trunc_rat p \<le> trunc_rat q"
proof (cases "0 \<le> p")
  case True
  with le show ?thesis by (simp add: trunc_rat_def floor_mono)
next
  case p: False
  show ?thesis
  proof (cases "0 \<le> q")
    case True
    have "\<lceil>p\<rceil> \<le> 0" using p by (simp add: ceiling_le_iff)
    moreover have "0 \<le> \<lfloor>q\<rfloor>" using True by simp
    ultimately have "\<lceil>p\<rceil> \<le> \<lfloor>q\<rfloor>" by linarith
    with p True show ?thesis by (simp add: trunc_rat_def)
  next
    case False
    with p le show ?thesis by (simp add: trunc_rat_def ceiling_mono)
  qed
qed

lemma float_trunc_Fin: "float_trunc (Fin m e) = Inr (trunc_rat (fval m e))"
proof (cases "0 \<le> e")
  case True
  then have "fval m e = of_int (m * 2 ^ nat e)" by (simp add: fval_def power_int_def)
  then have "trunc_rat (fval m e) = m * 2 ^ nat e" by (simp only: trunc_rat_of_int)
  with True show ?thesis by simp
next
  case False
  define D :: int where "D = 2 ^ nat (- e)"
  have D: "0 < D" by (simp add: D_def)
  have "(2::rat) powi e = inverse (2 ^ nat (- e))"
    using False by (simp add: power_int_def power_one_over inverse_eq_divide)
  then have v: "fval m e = of_int m / of_int D"
    by (simp add: fval_def D_def divide_inverse)
  have "tdiv m D = trunc_rat (of_int m / of_int D)"
  proof (cases "0 \<le> m")
    case True
    then show ?thesis using D by (simp add: tdiv_def trunc_rat_def floor_divide_of_int_eq)
  next
    case False
    have "\<lfloor>of_int (- m) / (of_int D :: rat)\<rfloor> = (- m) div D"
      by (rule floor_divide_of_int_eq)
    then have "- ((- m) div D) = \<lceil>of_int m / (of_int D :: rat)\<rceil>"
      by (simp add: ceiling_def)
    moreover have "of_int m / (of_int D :: rat) < 0" using False D by (simp add: divide_neg_pos)
    ultimately show ?thesis using False by (simp add: tdiv_def trunc_rat_def)
  qed
  with False v show ?thesis by (simp add: D_def)
qed

section \<open>Positive operands in the normal range\<close>

text \<open>
  Below \<open>2 ^ 52\<close> the last significand bit has a negative exponent, so no overflow is
  possible and the rounded value is a finite double within the unit roundoff.
\<close>

lemma flog2_less:
  assumes n: "0 < n" and d: "0 < d" and small: "of_int n / (of_int d :: rat) < 2 ^ 52"
  shows "flog2 n d < 52"
proof (rule ccontr)
  assume "\<not> flog2 n d < 52"
  then have "(2::rat) powi 52 \<le> 2 powi flog2 n d" by (intro power_int_increasing) simp_all
  with flog2_bounds [OF n d] small show False by simp
qed

theorem round_frac_pos:
  assumes n: "0 < n" and d: "0 < d"
    and normal: "2 powi (-1022) \<le> of_int n / (of_int d :: rat)"
    and small: "of_int n / (of_int d :: rat) < 2 ^ 52"
  shows "\<exists>m E. round_frac n d = Fin m E
           \<and> \<bar>fval m E - of_int n / of_int d\<bar> \<le> (of_int n / of_int d) / 2 ^ 53"
proof -
  have "round_exp \<bar>n\<bar> d < 0"
    using flog2_less [OF n d small] n by (simp add: round_exp_def)
  then have fin: "round_frac n d = Fin (rne_scaled n d (round_exp n d)) (round_exp n d)"
    using n by (simp add: round_frac_def Let_def)
  show ?thesis using round_frac_rel_err [OF n d fin normal] fin by blast
qed

lemma fval_mult: "fval (m1 * m2) (e1 + e2) = fval m1 e1 * fval m2 e2"
  by (simp add: fval_def power_int_add)

lemma round_dyadic_frac:
  "\<exists>n d. 0 < d \<and> round_dyadic m e = round_frac n d \<and> of_int n / of_int d = fval m e
         \<and> (0 < m \<longleftrightarrow> 0 < n)"
proof (cases "0 \<le> e")
  case True
  then have "fval m e = of_int (m * 2 ^ nat e) / of_int 1"
    by (simp add: fval_def power_int_def)
  with True show ?thesis
    by (intro exI [of _ "m * 2 ^ nat e"] exI [of _ 1])
       (simp add: round_dyadic_def zero_less_mult_iff)
next
  case False
  then have "fval m e = of_int m / of_int (2 ^ nat (- e))"
    by (simp add: fval_def power_int_def power_one_over inverse_eq_divide)
  with False show ?thesis
    by (intro exI [of _ m] exI [of _ "2 ^ nat (- e)"]) (simp add: round_dyadic_def)
qed

theorem round_dyadic_pos:
  assumes m: "0 < m"
    and normal: "2 powi (-1022) \<le> fval m e" and small: "fval m e < 2 ^ 52"
  shows "\<exists>m' e'. round_dyadic m e = Fin m' e' \<and> \<bar>fval m' e' - fval m e\<bar> \<le> fval m e / 2 ^ 53"
proof -
  obtain n d where d: "0 < d" and r: "round_dyadic m e = round_frac n d"
    and v: "of_int n / of_int d = fval m e" and n: "0 < n"
    using round_dyadic_frac [of m e] m by blast
  show ?thesis using round_frac_pos [OF n d] normal small by (simp add: r v)
qed

text \<open>A rounded positive value is positive: its error is below the value itself.\<close>

lemma rel_err_pos:
  assumes "\<bar>y - x\<bar> \<le> x / 2 ^ 53" "0 < (x::rat)"
  shows "0 < y"
proof -
  from assms(1) have "- (y - x) \<le> x / 2 ^ 53" by (rule abs_le_D2)
  moreover have "x / 2 ^ 53 < x" using assms(2) by simp
  ultimately show ?thesis by linarith
qed

lemma fval_pos_iff: "0 < fval m e \<longleftrightarrow> 0 < m"
proof -
  have pos: "(0::rat) < 2 powi e" by simp
  then have "\<not> (2::rat) powi e < 0" by linarith
  with pos show ?thesis by (simp add: fval_def zero_less_mult_iff)
qed

theorem int_truediv_pos:
  assumes a: "0 < a" and b: "0 < b"
    and normal: "2 powi (-1022) \<le> of_int a / (of_int b :: rat)"
    and small: "of_int a / (of_int b :: rat) < 2 ^ 52"
  shows "\<exists>m e. int_truediv a b = Inr (Fin m e) \<and> 0 < m
           \<and> \<bar>fval m e - of_int a / of_int b\<bar> \<le> (of_int a / of_int b) / 2 ^ 53"
proof -
  obtain m e where r: "round_frac a b = Fin m e"
    and err: "\<bar>fval m e - of_int a / of_int b\<bar> \<le> (of_int a / of_int b) / 2 ^ 53"
    using round_frac_pos [OF a b normal small] by blast
  have "0 < fval m e" by (rule rel_err_pos [OF err]) (use a b in simp)
  then have "0 < m" by (simp add: fval_pos_iff)
  moreover have "int_truediv a b = Inr (Fin m e)" using r b by (simp add: int_truediv_def)
  ultimately show ?thesis using err by blast
qed

theorem fmul_pos:
  assumes m1: "0 < m1" and m2: "0 < m2"
    and normal: "2 powi (-1022) \<le> fval m1 e1 * fval m2 e2"
    and small: "fval m1 e1 * fval m2 e2 < 2 ^ 52"
  shows "\<exists>m e. fmul (Fin m1 e1) (Fin m2 e2) = Fin m e \<and> 0 < m
           \<and> \<bar>fval m e - fval m1 e1 * fval m2 e2\<bar> \<le> fval m1 e1 * fval m2 e2 / 2 ^ 53"
proof -
  have p: "0 < m1 * m2" using m1 m2 by simp
  have n': "2 powi (-1022) \<le> fval (m1 * m2) (e1 + e2)"
    and s': "fval (m1 * m2) (e1 + e2) < 2 ^ 52"
    using normal small by (simp_all only: fval_mult)
  obtain m e where r: "round_dyadic (m1 * m2) (e1 + e2) = Fin m e"
    and err: "\<bar>fval m e - fval (m1 * m2) (e1 + e2)\<bar> \<le> fval (m1 * m2) (e1 + e2) / 2 ^ 53"
    using round_dyadic_pos [OF p n' s'] by blast
  have "0 < fval (m1 * m2) (e1 + e2)" using p by (simp add: fval_pos_iff)
  with err have "0 < fval m e" by (rule rel_err_pos)
  then have "0 < m" by (simp add: fval_pos_iff)
  moreover have "fmul (Fin m1 e1) (Fin m2 e2) = Fin m e" using r by simp
  ultimately show ?thesis using err by (simp only: fval_mult) blast
qed

text \<open>Ints below \<open>2 ^ 53\<close> convert to float exactly.\<close>

theorem float_of_int_exact:
  assumes i: "0 \<le> i" and small: "i < 2 ^ 53"
  shows "\<exists>m e. float_of_int i = Inr (Fin m e) \<and> fval m e = of_int i \<and> (0 < i \<longrightarrow> 0 < m)"
proof (cases "i = 0")
  case True
  then show ?thesis by (simp add: float_of_int_def round_frac_def fval_def)
next
  case False
  with i have i0: "0 < i" by simp
  define k where "k = nlog 2 (nat i)"
  have kb: "2 ^ k \<le> i \<and> i < 2 ^ Suc k" using nlog_int_bounds [of 2, OF _ i0] by (simp add: k_def)
  have "(2::int) ^ k < 2 ^ 53" using kb small by linarith
  then have k53: "k < 53" by (rule power_less_imp_less_exp [rotated]) simp
  have fl: "flog2 i 1 = int k" using i0 by (simp add: flog_def k_def)
  define E where "E = int k - 52"
  have E: "round_exp i 1 = E" by (simp add: round_exp_def fl E_def)
  have Ele: "E \<le> 0" using k53 by (simp add: E_def)
  define m where "m = i * 2 ^ nat (- E)"
  have rs: "rne_scaled i 1 E = m"
  proof (cases "E = 0")
    case True
    then show ?thesis by (simp add: rne_scaled_def rne_div_def m_def)
  next
    case False
    with Ele show ?thesis by (simp add: rne_scaled_def rne_div_def m_def)
  qed
  have m_small: "m < 2 ^ 1024"
  proof -
    have "m < 2 ^ 53 * 2 ^ nat (- E)" using small by (simp add: m_def)
    also have "(2::int) ^ 53 * 2 ^ nat (- E) \<le> 2 ^ 53 * 2 ^ 52" using Ele k53
      by (intro mult_left_mono power_increasing) (simp_all add: E_def)
    finally show ?thesis by simp
  qed
  have rf: "round_frac i 1 = Fin m E"
  proof -
    have "\<not> 2 ^ 1024 \<le> m * 2 ^ nat E" using Ele m_small by simp
    moreover have "\<bar>i\<bar> = i" "sgn i = 1" using i0 by simp_all
    ultimately show ?thesis using i0 by (simp add: round_frac_def Let_def E rs)
  qed
  have "fval m E = of_int i"
  proof -
    have one: "(2::rat) ^ nat (- E) * 2 powi E = 1"
      using Ele by (simp add: power_int_def power_one_over)
    have "fval m E = of_int i * ((2::rat) ^ nat (- E) * 2 powi E)"
      by (simp add: fval_def m_def mult.assoc)
    then show ?thesis by (simp only: one mult_1_right)
  qed
  moreover have "0 < m" using i0 by (simp add: m_def)
  ultimately show ?thesis using rf by (simp add: float_of_int_def)
qed

end
