(* ===== verification/Preprocess.thy ===== *)
theory Preprocess
  imports Float64
begin

text \<open>
  The image loader and preprocessor of \<^verbatim>\<open>src/python-ocr/ocr_service.py\<close>:
  \<^verbatim>\<open>upscale_if_needed\<close> (lines 8--19) and \<^verbatim>\<open>minimal_preprocess\<close> (lines 21--39).
  OpenCV is an external library: it is an interface record \<open>'img cv2\<close> of the four calls
  the program makes, and \<open>cv2_contract\<close> states what the program relies on (the shape of
  a resized image is the requested size, colour conversion keeps the shape). The scale
  arithmetic is the program's own and is computed in binary64 (theory \<open>Float64\<close>).
\<close>

section \<open>The OpenCV interface\<close>

datatype imread_flag = IMREAD_COLOR
datatype interpolation = INTER_CUBIC
datatype color_code = COLOR_BGR2GRAY

text \<open>
  \<open>shape img\<close> is \<^verbatim>\<open>img.shape[:2]\<close>, the pair \<open>(h, w)\<close>; \<open>resize img (w, h)\<close> is
  \<^verbatim>\<open>cv2.resize(img, (w, h), interpolation=...)\<close> (note the \<open>(width, height)\<close> order of
  OpenCV's \<^verbatim>\<open>dsize\<close>); \<open>imread\<close> returns \<open>None\<close> where \<^verbatim>\<open>cv2.imread\<close> does.
\<close>

record 'img cv2 =
  imread :: "string \<Rightarrow> imread_flag \<Rightarrow> 'img option"
  shape :: "'img \<Rightarrow> int \<times> int"
  resize :: "'img \<Rightarrow> int \<times> int \<Rightarrow> interpolation \<Rightarrow> 'img res"
  cvtColor :: "'img \<Rightarrow> color_code \<Rightarrow> 'img res"

definition cv2_contract :: "'img cv2 \<Rightarrow> bool" where
  "cv2_contract cv \<longleftrightarrow>
     (\<forall>img. 0 \<le> fst (shape cv img) \<and> 0 \<le> snd (shape cv img))
     \<and> (\<forall>img w h m. 0 < w \<and> 0 < h \<longrightarrow>
          (\<exists>img'. resize cv img (w, h) m = Inr img' \<and> shape cv img' = (h, w)))
     \<and> (\<forall>img c. \<exists>img'. cvtColor cv img c = Inr img' \<and> shape cv img' = shape cv img)"

text \<open>
  A concrete instance of the interface, for witnesses: an image is its size \<open>(h, w)\<close>,
  resizing yields the requested size and colour conversion keeps it;
  \<^verbatim>\<open>page.png\<close> holds a 100 by 281 image and \<^verbatim>\<open>wide.png\<close> an 800 by 1600 one.
\<close>

definition shape_cv :: "(nat \<times> nat) cv2" where
  "shape_cv =
     \<lparr>imread = (\<lambda>path flag. if path = ''page.png'' then Some (100, 281)
                          else if path = ''wide.png'' then Some (800, 1600) else None),
      shape = (\<lambda>(h, w). (int h, int w)),
      resize = (\<lambda>img (w, h) interp.
        if 0 < w \<and> 0 < h then Inr (nat h, nat w) else Inl (Cv2Error ''invalid dsize'')),
      cvtColor = (\<lambda>img code. Inr img)\<rparr>"

lemma shape_cv_contract: "cv2_contract shape_cv"
  by (auto simp: cv2_contract_def shape_cv_def)

section \<open>upscale_if_needed\<close>

text \<open>
  Lines 15--17: \<^verbatim>\<open>scale_factor = min_width / w\<close>, then
  \<^verbatim>\<open>new_w = int(w * scale_factor)\<close> and \<^verbatim>\<open>new_h = int(h * scale_factor)\<close>, each a
  float product truncated towards zero.
\<close>

definition target_size :: "int \<Rightarrow> int \<Rightarrow> int \<Rightarrow> (int \<times> int) res" where
  "target_size min_width h w =
     bind_res (int_truediv min_width w) (\<lambda>scale_factor.
     bind_res (bind_res (int_mul_float w scale_factor) float_trunc) (\<lambda>new_w.
     bind_res (bind_res (int_mul_float h scale_factor) float_trunc) (\<lambda>new_h.
     Inr (new_w, new_h))))"

definition upscale_if_needed :: "'img cv2 \<Rightarrow> 'img \<Rightarrow> int \<Rightarrow> 'img res" where
  "upscale_if_needed cv img_bgr min_width =
     (let (h, w) = shape cv img_bgr in
      if w < min_width then
        bind_res (target_size min_width h w) (\<lambda>(new_w, new_h).
          resize cv img_bgr (new_w, new_h) INTER_CUBIC)
      else Inr img_bgr)"

section \<open>The scale arithmetic\<close>

text \<open>
  The scale factor \<open>c / w\<close> (for \<open>0 < w < c \<le> 2 ^ 49\<close>) is a positive double within
  the unit roundoff of the exact quotient.
\<close>

lemma scale_factor_pos:
  assumes w: "0 < w" and wc: "w < c" and c: "c \<le> 2 ^ 49"
  shows "\<exists>m e. int_truediv c w = Inr (Fin m e) \<and> 0 < m
           \<and> \<bar>fval m e - of_int c / of_int w\<bar> \<le> (of_int c / of_int w) / 2 ^ 53"
proof -
  have c0: "0 < c" using w wc by simp
  have q1: "1 \<le> of_int c / (of_int w :: rat)" using w wc by simp
  have "(2::rat) powi (-1022) \<le> 1" by (simp add: power_int_minus)
  with q1 have normal: "2 powi (-1022) \<le> of_int c / (of_int w :: rat)" by linarith
  have "of_int c / (of_int w :: rat) \<le> of_int c" using w c0 by (simp add: divide_le_eq)
  also have "(of_int c :: rat) \<le> 2 ^ 49" using c of_int_le_iff [of c "2 ^ 49", where 'a = rat] by simp
  finally have small: "of_int c / (of_int w :: rat) < 2 ^ 52" by simp
  show ?thesis by (rule int_truediv_pos [OF c0 w normal small])
qed

text \<open>
  One dimension \<open>x\<close> scaled by that factor and truncated: the result is the floor of the
  exact \<open>x * c / w\<close> up to a quarter, when \<open>x * c / w \<le> 2 ^ 49\<close>.
\<close>

lemma scaled_dim:
  assumes m: "0 < m" and err: "\<bar>fval m e - of_int c / of_int w\<bar> \<le> (of_int c / of_int w) / 2 ^ 53"
    and w: "0 < w" and wc: "w < c" and c: "c \<le> 2 ^ 49"
    and x: "0 < x" and xc: "x * c \<le> 2 ^ 49 * w"
  shows "\<exists>t. bind_res (int_mul_float x (Fin m e)) float_trunc = Inr t \<and> x \<le> t
           \<and> \<lfloor>of_int x * of_int c / of_int w - 1 / 4 :: rat\<rfloor> \<le> t
           \<and> t \<le> \<lfloor>of_int x * of_int c / of_int w + 1 / 4 :: rat\<rfloor>"
proof -
  define q :: rat where "q = of_int c / of_int w"
  define S where "S = fval m e"
  define H :: rat where "H = of_int x * q"
  have q1: "1 < q" using w wc by (simp add: q_def)
  have Sq: "\<bar>S - q\<bar> \<le> q / 2 ^ 53" using err by (simp add: S_def q_def)
  have Hle: "H \<le> 2 ^ 49"
  proof -
    have "(of_int (x * c) :: rat) \<le> of_int (2 ^ 49 * w)" using xc by (simp only: of_int_le_iff)
    then have "of_int x * of_int c \<le> (2 ^ 49 :: rat) * of_int w" by simp
    then show ?thesis using w by (simp add: H_def q_def pos_divide_le_eq mult.commute)
  qed
  have x53: "x < 2 ^ 53"
  proof -
    have "x * w < x * c" using x wc by simp
    then have "x * w < 2 ^ 49 * w" using xc by linarith
    then have "x < 2 ^ 49" using w by simp
    then show ?thesis by simp
  qed
  obtain mx ex where fx: "float_of_int x = Inr (Fin mx ex)" and vx: "fval mx ex = of_int x"
    and mx: "0 < mx"
    using float_of_int_exact [of x] x x53 by auto
  define P where "P = of_int x * S"
  have "- (S - q) \<le> q / 2 ^ 53" using Sq by (rule abs_le_D2)
  with q1 have S_half: "1 / 2 \<le> S" by simp
  have x1: "(1::rat) \<le> of_int x" using x by simp
  have P_half: "1 / 2 \<le> P"
  proof -
    have "(1::rat) * (1 / 2) \<le> of_int x * S" using x1 S_half by (intro mult_mono) simp_all
    then show ?thesis by (simp add: P_def)
  qed
  have PH: "\<bar>P - H\<bar> \<le> H / 2 ^ 53"
  proof -
    have "\<bar>P - H\<bar> = of_int x * \<bar>S - q\<bar>" using x by (simp add: P_def H_def abs_mult right_diff_distrib [symmetric])
    also have "\<dots> \<le> of_int x * (q / 2 ^ 53)" using Sq x by (intro mult_left_mono) simp_all
    finally show ?thesis by (simp add: H_def)
  qed
  have normal: "2 powi (-1022) \<le> fval mx ex * fval m e"
  proof -
    have "(2::rat) powi (-1022) \<le> 1 / 2" by (simp add: power_int_minus)
    with P_half show ?thesis by (simp add: vx P_def S_def)
  qed
  have small: "fval mx ex * fval m e < 2 ^ 52"
  proof -
    have "P - H \<le> H / 2 ^ 53" using PH by (rule abs_le_D1)
    then have "P \<le> H + H / 2 ^ 53" by simp
    with Hle have "P < 2 ^ 52" by (simp; linarith)
    then show ?thesis by (simp add: vx P_def S_def)
  qed
  obtain m' e' where mul: "fmul (Fin mx ex) (Fin m e) = Fin m' e'" and m': "0 < m'"
    and XP: "\<bar>fval m' e' - P\<bar> \<le> P / 2 ^ 53"
    using fmul_pos [OF mx m normal small] by (auto simp: vx P_def S_def)
  define X where "X = fval m' e'"
  have a1: "X - P \<le> P / 2 ^ 53" "- (X - P) \<le> P / 2 ^ 53"
    using XP abs_le_D1 abs_le_D2 unfolding X_def by blast+
  have a2: "P - H \<le> H / 2 ^ 53" "- (P - H) \<le> H / 2 ^ 53"
    using PH abs_le_D1 abs_le_D2 by blast+
  have XH: "\<bar>X - H\<bar> \<le> 1 / 4" unfolding abs_le_iff using a1 a2 Hle by (simp; linarith)
  define y :: rat where "y = of_int x / of_int w"
  have y0: "0 < y" using x w by (simp add: y_def)
  have Hy: "H = of_int c * y" and xy: "of_int x = of_int w * y"
    using w by (simp_all add: H_def q_def y_def)
  have "y \<le> (of_int c - of_int w) * y"
  proof -
    have "(1::rat) \<le> of_int c - of_int w" using wc by simp
    then show ?thesis using y0 by (simp add: mult_le_cancel_right1)
  qed
  then have xH: "of_int x \<le> H - y" by (simp add: Hy xy left_diff_distrib)
  have Hy2: "H \<le> 2 ^ 49 * y"
  proof -
    have "(of_int c :: rat) \<le> 2 ^ 49" using c of_int_le_iff [of c "2 ^ 49", where 'a = rat] by simp
    then show ?thesis using y0 by (simp add: Hy mult_right_mono)
  qed
  have Xx: "of_int x \<le> X" using a1 a2 xH Hy2 y0 by (simp; linarith)
  have X0: "0 \<le> X" using m' by (simp add: X_def fval_pos_iff less_imp_le)
  have t: "bind_res (int_mul_float x (Fin m e)) float_trunc = Inr \<lfloor>X\<rfloor>"
    using X0 by (simp add: int_mul_float_def fx mul float_trunc_Fin trunc_rat_def X_def del: fmul.simps float_trunc.simps)
  have "H - 1 / 4 \<le> X" "X \<le> H + 1 / 4" using XH abs_le_D1 abs_le_D2 by fastforce+
  then have "\<lfloor>H - 1 / 4\<rfloor> \<le> \<lfloor>X\<rfloor>" and "\<lfloor>X\<rfloor> \<le> \<lfloor>H + 1 / 4\<rfloor>"
    by (simp_all only: floor_mono)
  moreover have "H = of_int x * of_int c / of_int w" by (simp add: H_def q_def)
  moreover have "x \<le> \<lfloor>X\<rfloor>" using Xx by (simp add: le_floor_iff)
  ultimately show ?thesis using t by auto
qed

text \<open>
  The sizes computed at lines 15--17 for a narrow image: the new width is the minimum
  width or one less, the new height the exact \<open>h * c / w\<close> up to a quarter, then
  truncated. The bounds \<open>c \<le> 2 ^ 49\<close> and \<open>h * c \<le> 2 ^ 49 * w\<close> keep every
  intermediate far below \<open>2 ^ 52\<close>, where a double still has a fractional bit.
\<close>

lemma target_size_narrow:
  assumes w: "0 < w" and wc: "w < c" and c: "c \<le> 2 ^ 49"
    and h: "0 < h" and hc: "h * c \<le> 2 ^ 49 * w"
  shows "\<exists>new_w new_h. target_size c h w = Inr (new_w, new_h)
           \<and> c - 1 \<le> new_w \<and> new_w \<le> c \<and> h \<le> new_h
           \<and> \<lfloor>of_int h * of_int c / of_int w - 1 / 4 :: rat\<rfloor> \<le> new_h
           \<and> new_h \<le> \<lfloor>of_int h * of_int c / of_int w + 1 / 4 :: rat\<rfloor>"
proof -
  obtain m e where sf: "int_truediv c w = Inr (Fin m e)" and m: "0 < m"
    and err: "\<bar>fval m e - of_int c / of_int w\<bar> \<le> (of_int c / of_int w) / 2 ^ 53"
    using scale_factor_pos [OF w wc c] by blast
  have wc': "w * c \<le> 2 ^ 49 * w" using w c by simp
  obtain nw where nw: "bind_res (int_mul_float w (Fin m e)) float_trunc = Inr nw"
    and nw1: "\<lfloor>of_int w * of_int c / of_int w - 1 / 4 :: rat\<rfloor> \<le> nw"
    and nw2: "nw \<le> \<lfloor>of_int w * of_int c / of_int w + 1 / 4 :: rat\<rfloor>"
    using scaled_dim [OF m err w wc c w wc'] by blast
  obtain nh where nh: "bind_res (int_mul_float h (Fin m e)) float_trunc = Inr nh"
    and hnh: "h \<le> nh"
    and nh1: "\<lfloor>of_int h * of_int c / of_int w - 1 / 4 :: rat\<rfloor> \<le> nh"
    and nh2: "nh \<le> \<lfloor>of_int h * of_int c / of_int w + 1 / 4 :: rat\<rfloor>"
    using scaled_dim [OF m err w wc c h hc] by blast
  have wcw: "of_int w * of_int c / of_int w = (of_int c :: rat)" using w by simp
  have f1: "\<lfloor>of_int c - 1 / 4 :: rat\<rfloor> = c - 1" by (rule floor_unique) simp_all
  have f2: "\<lfloor>of_int c + 1 / 4 :: rat\<rfloor> = c" by (rule floor_unique) simp_all
  have "target_size c h w = Inr (nw, nh)" by (simp add: target_size_def sf nw nh del: bind_res_eq_Inr)
  with nw1 nw2 nh1 nh2 hnh show ?thesis by (auto simp only: wcw f1 f2)
qed

text \<open>C7: For 0 < w < c <= 2^49 and 0 < h with h*c <= 2^49*w, the size computed by upscale_if_needed is width c-1 or c and a height at least h and within a quarter of h*c/w before flooring.\<close>

theorem target_size_bounds:
  assumes "0 < w" "w < c" "c \<le> 2 ^ 49" "0 < h" "h * c \<le> 2 ^ 49 * w"
  shows "\<exists>new_w new_h. target_size c h w = Inr (new_w, new_h)
           \<and> c - 1 \<le> new_w \<and> new_w \<le> c \<and> h \<le> new_h
           \<and> \<lfloor>of_int h * of_int c / of_int w - 1 / 4 :: rat\<rfloor> \<le> new_h
           \<and> new_h \<le> \<lfloor>of_int h * of_int c / of_int w + 1 / 4 :: rat\<rfloor>"
  using target_size_narrow [OF assms] .

text \<open>
  The docstring of \<^verbatim>\<open>upscale_if_needed\<close> promises a width of at least
  \<^verbatim>\<open>min_width\<close>; at \<open>w = 281\<close> the product \<open>281 * (1200 / 281)\<close> is
  \<open>1199.9999999999998\<close> in binary64 and truncates to \<open>1199\<close>.
\<close>

theorem target_size_281: "target_size 1200 100 281 = Inr (1199, 427)"
  by code_simp

text \<open>C19: An image at least \<^verbatim>\<open>min_width\<close> wide is passed through unchanged (line 19).\<close>

theorem upscale_wide:
  assumes "shape cv img = (h, w)" and "min_width \<le> w"
  shows "upscale_if_needed cv img min_width = Inr img"
  using assms by (simp add: upscale_if_needed_def)

text \<open>
  C20: An image of width zero, were the library to return one, makes line 15 divide by zero.
\<close>

theorem upscale_zero_width:
  assumes "shape cv img = (h, 0)" and "0 < min_width"
  shows "upscale_if_needed cv img min_width = Inl (ZeroDivisionError ''division by zero'')"
  using assms by (simp add: upscale_if_needed_def target_size_def int_truediv_def)

text \<open>
  A narrow image is resized to the computed size; under the OpenCV contract the result
  has that shape: at least as large as the input, its width the minimum width or one
  less, its height \<open>h * c / w\<close> up to a quarter, truncated.
\<close>

lemma upscale_narrow:
  assumes cv: "cv2_contract cv" and sh: "shape cv img = (h, w)"
    and w: "0 < w" and wc: "w < c" and c: "c \<le> 2 ^ 49"
    and h: "0 < h" and hc: "h * c \<le> 2 ^ 49 * w"
  shows "\<exists>img' new_w new_h. upscale_if_needed cv img c = Inr img'
           \<and> shape cv img' = (new_h, new_w)
           \<and> c - 1 \<le> new_w \<and> new_w \<le> c \<and> h \<le> new_h
           \<and> \<lfloor>of_int h * of_int c / of_int w - 1 / 4 :: rat\<rfloor> \<le> new_h
           \<and> new_h \<le> \<lfloor>of_int h * of_int c / of_int w + 1 / 4 :: rat\<rfloor>"
proof -
  obtain nw nh where ts: "target_size c h w = Inr (nw, nh)"
    and b: "c - 1 \<le> nw" "nw \<le> c" "h \<le> nh"
      "\<lfloor>of_int h * of_int c / of_int w - 1 / 4 :: rat\<rfloor> \<le> nh"
      "nh \<le> \<lfloor>of_int h * of_int c / of_int w + 1 / 4 :: rat\<rfloor>"
    using target_size_narrow [OF w wc c h hc] by blast
  have pos: "0 < nw" "0 < nh" using b(1,3) w wc h by simp_all
  obtain img' where rs: "resize cv img (nw, nh) INTER_CUBIC = Inr img'"
    and sh': "shape cv img' = (nh, nw)"
    using cv pos unfolding cv2_contract_def by blast
  have "upscale_if_needed cv img c = Inr img'"
    using sh wc by (simp add: upscale_if_needed_def ts rs del: bind_res_eq_Inr)
  with sh' b show ?thesis by blast
qed

text \<open>C18: Under the OpenCV contract a narrower image is resized to the computed size, so the result has width c-1 or c and the bounded height.\<close>

theorem upscale_narrow_shape:
  assumes "cv2_contract cv" "shape cv img = (h, w)"
    and "0 < w" "w < c" "c \<le> 2 ^ 49" "0 < h" "h * c \<le> 2 ^ 49 * w"
  shows "\<exists>img' new_w new_h. upscale_if_needed cv img c = Inr img'
           \<and> shape cv img' = (new_h, new_w)
           \<and> c - 1 \<le> new_w \<and> new_w \<le> c \<and> h \<le> new_h
           \<and> \<lfloor>of_int h * of_int c / of_int w - 1 / 4 :: rat\<rfloor> \<le> new_h
           \<and> new_h \<le> \<lfloor>of_int h * of_int c / of_int w + 1 / 4 :: rat\<rfloor>"
  using upscale_narrow [OF assms] .

section \<open>minimal_preprocess\<close>

definition minimal_preprocess :: "'img cv2 \<Rightarrow> string \<Rightarrow> 'img res" where
  "minimal_preprocess cv image_path =
     (case imread cv image_path IMREAD_COLOR of
        None \<Rightarrow> Inl (ValueError (''Could not load image from: '' @ image_path))
      | Some img_bgr \<Rightarrow>
          bind_res (upscale_if_needed cv img_bgr 1200) (\<lambda>img_bgr.
            cvtColor cv img_bgr COLOR_BGR2GRAY))"

text \<open>C21: Line 30: an unreadable path raises \<^verbatim>\<open>ValueError\<close> naming the path.\<close>

theorem preprocess_load_error:
  assumes "imread cv image_path IMREAD_COLOR = None"
  shows "minimal_preprocess cv image_path
           = Inl (ValueError (''Could not load image from: '' @ image_path))"
  using assms by (simp add: minimal_preprocess_def)

text \<open>C22: A wide image comes out grey with its original shape.\<close>

theorem preprocess_wide_shape:
  assumes cv: "cv2_contract cv" and rd: "imread cv image_path IMREAD_COLOR = Some img"
    and sh: "shape cv img = (h, w)" and wide: "1200 \<le> w"
  shows "\<exists>gray. minimal_preprocess cv image_path = Inr gray \<and> shape cv gray = (h, w)"
proof -
  obtain g where "cvtColor cv img COLOR_BGR2GRAY = Inr g" and "shape cv g = shape cv img"
    using cv unfolding cv2_contract_def by blast
  with rd sh wide show ?thesis
    by (simp add: minimal_preprocess_def upscale_if_needed_def)
qed

text \<open>C23: A narrow image comes out grey with the upscaled shape.\<close>

theorem preprocess_narrow_shape:
  assumes cv: "cv2_contract cv" and rd: "imread cv image_path IMREAD_COLOR = Some img"
    and sh: "shape cv img = (h, w)" and w: "0 < w" and narrow: "w < 1200"
    and h: "0 < h" and hc: "h * 1200 \<le> 2 ^ 49 * w"
  shows "\<exists>gray new_w new_h. minimal_preprocess cv image_path = Inr gray
           \<and> shape cv gray = (new_h, new_w)
           \<and> 1199 \<le> new_w \<and> new_w \<le> 1200 \<and> h \<le> new_h
           \<and> \<lfloor>of_int h * 1200 / of_int w - 1 / 4 :: rat\<rfloor> \<le> new_h
           \<and> new_h \<le> \<lfloor>of_int h * 1200 / of_int w + 1 / 4 :: rat\<rfloor>"
proof -
  obtain img' nw nh where up: "upscale_if_needed cv img 1200 = Inr img'"
    and sh': "shape cv img' = (nh, nw)"
    and b: "1200 - 1 \<le> nw" "nw \<le> 1200" "h \<le> nh"
      "\<lfloor>of_int h * of_int 1200 / of_int w - 1 / 4 :: rat\<rfloor> \<le> nh"
      "nh \<le> \<lfloor>of_int h * of_int 1200 / of_int w + 1 / 4 :: rat\<rfloor>"
    using upscale_narrow [OF cv sh w narrow _ h hc] by fastforce
  obtain g where "cvtColor cv img' COLOR_BGR2GRAY = Inr g" and "shape cv g = shape cv img'"
    using cv unfolding cv2_contract_def by blast
  with rd up sh' b show ?thesis by (simp add: minimal_preprocess_def)
qed

section \<open>Witnesses\<close>

text \<open>Each theorem with hypotheses above, applied where its hypotheses hold.\<close>

theorem target_size_bounds_witness:
  "\<exists>new_w new_h. target_size 1200 100 281 = Inr (new_w, new_h)
     \<and> 1200 - 1 \<le> new_w \<and> new_w \<le> 1200 \<and> 100 \<le> new_h
     \<and> \<lfloor>of_int 100 * of_int 1200 / of_int 281 - 1 / 4 :: rat\<rfloor> \<le> new_h
     \<and> new_h \<le> \<lfloor>of_int 100 * of_int 1200 / of_int 281 + 1 / 4 :: rat\<rfloor>"
  by (rule target_size_bounds) simp_all

theorem upscale_wide_witness: "upscale_if_needed shape_cv (800, 1600) 1200 = Inr (800, 1600)"
  by (rule upscale_wide [where h = 800 and w = 1600]) (simp_all add: shape_cv_def)

theorem upscale_zero_width_witness:
  "upscale_if_needed shape_cv (100, 0) 1200 = Inl (ZeroDivisionError ''division by zero'')"
  by (rule upscale_zero_width [where h = 100]) (simp_all add: shape_cv_def)

theorem upscale_narrow_shape_witness:
  "\<exists>img' new_w new_h. upscale_if_needed shape_cv (100, 281) 1200 = Inr img'
     \<and> shape shape_cv img' = (new_h, new_w)
     \<and> 1200 - 1 \<le> new_w \<and> new_w \<le> 1200 \<and> 100 \<le> new_h
     \<and> \<lfloor>of_int 100 * of_int 1200 / of_int 281 - 1 / 4 :: rat\<rfloor> \<le> new_h
     \<and> new_h \<le> \<lfloor>of_int 100 * of_int 1200 / of_int 281 + 1 / 4 :: rat\<rfloor>"
  by (rule upscale_narrow_shape [OF shape_cv_contract]) (simp_all add: shape_cv_def)

theorem preprocess_load_error_witness:
  "minimal_preprocess shape_cv ''missing.png''
     = Inl (ValueError (''Could not load image from: '' @ ''missing.png''))"
  by (rule preprocess_load_error) (simp add: shape_cv_def)

theorem preprocess_wide_shape_witness:
  "\<exists>gray. minimal_preprocess shape_cv ''wide.png'' = Inr gray \<and> shape shape_cv gray = (800, 1600)"
  by (rule preprocess_wide_shape [OF shape_cv_contract, where img = "(800, 1600)"])
     (simp_all add: shape_cv_def)

theorem preprocess_narrow_shape_witness:
  "\<exists>gray new_w new_h. minimal_preprocess shape_cv ''page.png'' = Inr gray
     \<and> shape shape_cv gray = (new_h, new_w)
     \<and> 1199 \<le> new_w \<and> new_w \<le> 1200 \<and> 100 \<le> new_h
     \<and> \<lfloor>of_int 100 * 1200 / of_int 281 - 1 / 4 :: rat\<rfloor> \<le> new_h
     \<and> new_h \<le> \<lfloor>of_int 100 * 1200 / of_int 281 + 1 / 4 :: rat\<rfloor>"
  by (rule preprocess_narrow_shape [OF shape_cv_contract, where img = "(100, 281)"])
     (simp_all add: shape_cv_def)

end
