(* ===== verification/PyValue.thy ===== *)
theory PyValue
  imports Float64
begin

text \<open>
  The Python values the OCR engine hands back and the built-in operations the result
  formatter applies to them: \<^verbatim>\<open>isinstance\<close>, \<^verbatim>\<open>len\<close>, indexing, iteration,
  rich comparison, \<^verbatim>\<open>min\<close>, \<^verbatim>\<open>max\<close>, \<^verbatim>\<open>int()\<close> and \<^verbatim>\<open>float()\<close>, each
  with the exception CPython raises where it raises one. A Python \<^verbatim>\<open>str\<close> is a
  \<open>string\<close> whose characters stand for code points below 256.
\<close>

section \<open>Values\<close>

datatype pyval =
    PyNone
  | PyBool bool
  | PyInt int
  | PyFloat pyfloat
  | PyStr string
  | PyList "pyval list"
  | PyTuple "pyval list"

fun type_name :: "pyval \<Rightarrow> string" where
  "type_name PyNone = ''NoneType''"
| "type_name (PyBool b) = ''bool''"
| "type_name (PyInt i) = ''int''"
| "type_name (PyFloat f) = ''float''"
| "type_name (PyStr s) = ''str''"
| "type_name (PyList xs) = ''list''"
| "type_name (PyTuple xs) = ''tuple''"

definition quoted :: "string \<Rightarrow> string" where
  "quoted s = CHR 0x27 # s @ [CHR 0x27]"

section \<open>isinstance, len, indexing, iteration\<close>

text \<open>\<^verbatim>\<open>isinstance(v, (list, tuple))\<close>\<close>

fun is_list_or_tuple :: "pyval \<Rightarrow> bool" where
  "is_list_or_tuple (PyList xs) = True"
| "is_list_or_tuple (PyTuple xs) = True"
| "is_list_or_tuple v = False"

text \<open>The items of a list or tuple (\<^verbatim>\<open>len\<close> is their length).\<close>

fun seq_items :: "pyval \<Rightarrow> pyval list" where
  "seq_items (PyList xs) = xs"
| "seq_items (PyTuple xs) = xs"
| "seq_items v = []"

text \<open>Indexing a sequence, negative indices counting from the end.\<close>

definition py_index :: "string \<Rightarrow> 'a list \<Rightarrow> int \<Rightarrow> 'a res" where
  "py_index tn xs i =
     (let pos = (if 0 \<le> i then i else i + int (length xs)) in
      if pos < 0 \<or> int (length xs) \<le> pos then Inl (IndexError (tn @ '' index out of range''))
      else Inr (xs ! nat pos))"

fun py_getitem :: "pyval \<Rightarrow> int \<Rightarrow> pyval res" where
  "py_getitem (PyList xs) i = py_index ''list'' xs i"
| "py_getitem (PyTuple xs) i = py_index ''tuple'' xs i"
| "py_getitem (PyStr s) i = bind_res (py_index ''string'' s i) (\<lambda>c. Inr (PyStr [c]))"
| "py_getitem v i = Inl (TypeError (quoted (type_name v) @ '' object is not subscriptable''))"

fun py_iter :: "pyval \<Rightarrow> pyval list res" where
  "py_iter (PyList xs) = Inr xs"
| "py_iter (PyTuple xs) = Inr xs"
| "py_iter (PyStr s) = Inr (map (\<lambda>c. PyStr [c]) s)"
| "py_iter v = Inl (TypeError (quoted (type_name v) @ '' object is not iterable''))"

section \<open>Rich comparison\<close>

text \<open>
  Numbers (\<^verbatim>\<open>bool\<close>, \<^verbatim>\<open>int\<close>, \<^verbatim>\<open>float\<close>) compare by exact value, an int as
  the dyadic \<open>i * 2 ^ 0\<close>, NaN unordered; strings compare by code point; lists with
  lists and tuples with tuples compare lexicographically, the first unequal items deciding;
  anything else raises \<^verbatim>\<open>TypeError\<close>.
\<close>

datatype cmp_op = Lt | Gt

fun op_sym :: "cmp_op \<Rightarrow> string" where
  "op_sym Lt = ''<''"
| "op_sym Gt = ''>''"

fun num_float :: "pyval \<Rightarrow> pyfloat option" where
  "num_float (PyBool b) = Some (Fin (if b then 1 else 0) 0)"
| "num_float (PyInt i) = Some (Fin i 0)"
| "num_float (PyFloat f) = Some f"
| "num_float v = None"

definition feq :: "pyfloat \<Rightarrow> pyfloat \<Rightarrow> bool" where
  "feq x y \<longleftrightarrow> x \<noteq> NaN \<and> y \<noteq> NaN \<and> \<not> flt x y \<and> \<not> flt y x"

fun str_lt :: "string \<Rightarrow> string \<Rightarrow> bool" where
  "str_lt [] (b # bs) = True"
| "str_lt (a # as) (b # bs) = (if a = b then str_lt as bs else (of_char a :: nat) < of_char b)"
| "str_lt as bs = False"

fun py_eq :: "pyval \<Rightarrow> pyval \<Rightarrow> bool"
  and py_eq_list :: "pyval list \<Rightarrow> pyval list \<Rightarrow> bool" where
  "py_eq (PyList xs) (PyList ys) = py_eq_list xs ys"
| "py_eq (PyTuple xs) (PyTuple ys) = py_eq_list xs ys"
| "py_eq (PyStr s) (PyStr t) = (s = t)"
| "py_eq PyNone PyNone = True"
| "py_eq a b = (case (num_float a, num_float b) of (Some x, Some y) \<Rightarrow> feq x y | _ \<Rightarrow> False)"
| "py_eq_list [] [] = True"
| "py_eq_list (x # xs) (y # ys) = (py_eq x y \<and> py_eq_list xs ys)"
| "py_eq_list xs ys = False"

definition cmp_error :: "cmp_op \<Rightarrow> pyval \<Rightarrow> pyval \<Rightarrow> pyerr" where
  "cmp_error op a b = TypeError (quoted (op_sym op) @ '' not supported between instances of ''
      @ quoted (type_name a) @ '' and '' @ quoted (type_name b))"

fun py_cmp :: "cmp_op \<Rightarrow> pyval \<Rightarrow> pyval \<Rightarrow> bool res"
  and py_cmp_list :: "cmp_op \<Rightarrow> pyval list \<Rightarrow> pyval list \<Rightarrow> bool res" where
  "py_cmp op (PyStr s) (PyStr t) = Inr (case op of Lt \<Rightarrow> str_lt s t | Gt \<Rightarrow> str_lt t s)"
| "py_cmp op (PyList xs) (PyList ys) = py_cmp_list op xs ys"
| "py_cmp op (PyTuple xs) (PyTuple ys) = py_cmp_list op xs ys"
| "py_cmp op a b = (case (num_float a, num_float b) of
      (Some x, Some y) \<Rightarrow> Inr (case op of Lt \<Rightarrow> flt x y | Gt \<Rightarrow> flt y x)
    | _ \<Rightarrow> Inl (cmp_error op a b))"
| "py_cmp_list op (x # xs) (y # ys) =
     (if py_eq x y then py_cmp_list op xs ys else py_cmp op x y)"
| "py_cmp_list op xs ys =
     Inr (case op of Lt \<Rightarrow> length xs < length ys | Gt \<Rightarrow> length ys < length xs)"

section \<open>min and max\<close>

text \<open>
  CPython's \<^verbatim>\<open>min\<close>/\<^verbatim>\<open>max\<close> keep the first item and replace it by each later
  item that compares less (greater) than the current one: \<^verbatim>\<open>item < current\<close>.
\<close>

fun minmax_from :: "cmp_op \<Rightarrow> pyval \<Rightarrow> pyval list \<Rightarrow> pyval res" where
  "minmax_from op m [] = Inr m"
| "minmax_from op m (x # xs) = bind_res (py_cmp op x m) (\<lambda>b. minmax_from op (if b then x else m) xs)"

definition py_min :: "pyval list \<Rightarrow> pyval res" where
  "py_min xs = (case xs of
       [] \<Rightarrow> Inl (ValueError ''min() arg is an empty sequence'')
     | x # rest \<Rightarrow> minmax_from Lt x rest)"

definition py_max :: "pyval list \<Rightarrow> pyval res" where
  "py_max xs = (case xs of
       [] \<Rightarrow> Inl (ValueError ''max() arg is an empty sequence'')
     | x # rest \<Rightarrow> minmax_from Gt x rest)"

section \<open>Parsing numbers from strings\<close>

text \<open>
  \<^verbatim>\<open>int(s)\<close> and \<^verbatim>\<open>float(s)\<close> strip whitespace, accept a sign, and accept
  underscores between digits (PEP 515).
\<close>

definition is_py_space :: "char \<Rightarrow> bool" where
  "is_py_space c = (let n = of_char c :: nat in
     (9 \<le> n \<and> n \<le> 13) \<or> (28 \<le> n \<and> n \<le> 32) \<or> n = 133 \<or> n = 160)"

definition py_strip :: "string \<Rightarrow> string" where
  "py_strip s = rev (dropWhile is_py_space (rev (dropWhile is_py_space s)))"

definition is_dec :: "char \<Rightarrow> bool" where
  "is_dec c = (let n = of_char c :: nat in 48 \<le> n \<and> n \<le> 57)"

fun split_at_char :: "char \<Rightarrow> string \<Rightarrow> string list" where
  "split_at_char c [] = [[]]"
| "split_at_char c (x # xs) =
     (if x = c then [] # split_at_char c xs
      else (case split_at_char c xs of g # gs \<Rightarrow> (x # g) # gs | [] \<Rightarrow> [[x]]))"

text \<open>Digits in groups separated by single underscores, at least one digit.\<close>

definition digit_part :: "string \<Rightarrow> bool" where
  "digit_part s = list_all (\<lambda>g. g \<noteq> [] \<and> list_all is_dec g) (split_at_char CHR ''_'' s)"

definition digits_value :: "string \<Rightarrow> nat" where
  "digits_value s = foldl (\<lambda>n c. 10 * n + (of_char c - 48)) 0 (filter is_dec s)"

definition split_sign :: "string \<Rightarrow> int \<times> string" where
  "split_sign s = (case s of
       c # r \<Rightarrow> if c = CHR ''-'' then (-1, r) else if c = CHR ''+'' then (1, r) else (1, s)
     | [] \<Rightarrow> (1, []))"

definition parse_int :: "string \<Rightarrow> int option" where
  "parse_int s = (let (sg, body) = split_sign (py_strip s) in
     if digit_part body then Some (sg * int (digits_value body)) else None)"

definition lower_char :: "char \<Rightarrow> char" where
  "lower_char c = (let n = of_char c :: nat in if 65 \<le> n \<and> n \<le> 90 then char_of (n + 32) else c)"

text \<open>A decimal literal: digits, an optional fraction, an optional exponent.\<close>

definition parse_decimal :: "string \<Rightarrow> (int \<times> int) option" where
  "parse_decimal s =
     (let (mant, ex) = (case split_at_char CHR ''e'' (map lower_char s) of
                          [m] \<Rightarrow> (m, None) | [m, e] \<Rightarrow> (m, Some e) | _ \<Rightarrow> ([], None));
          (ip, fp) = (case split_at_char CHR ''.'' mant of
                          [i] \<Rightarrow> (i, None) | [i, f] \<Rightarrow> (i, Some f) | _ \<Rightarrow> ([], Some []))
      in if \<not> (case fp of
                  None \<Rightarrow> digit_part ip
                | Some f \<Rightarrow> (ip \<noteq> [] \<or> f \<noteq> []) \<and> (ip = [] \<or> digit_part ip)
                            \<and> (f = [] \<or> digit_part f))
         then None
         else
           let f = (case fp of None \<Rightarrow> [] | Some f \<Rightarrow> f);
               m = int (digits_value (ip @ f));
               k = - int (length (filter is_dec f))
           in case ex of
                None \<Rightarrow> Some (m, k)
              | Some e \<Rightarrow> (let (esg, edig) = split_sign e in
                  if digit_part edig then Some (m, k + esg * int (digits_value edig)) else None))"

definition parse_float :: "string \<Rightarrow> pyfloat option" where
  "parse_float s =
     (let (sg, body) = split_sign (py_strip s); low = map lower_char body in
      if low = ''inf'' \<or> low = ''infinity'' then Some (if sg < 0 then NInf else PInf)
      else if low = ''nan'' then Some NaN
      else case parse_decimal body of
          None \<Rightarrow> None
        | Some (m, k) \<Rightarrow>
            Some (if 0 \<le> k then round_frac (sg * m * 10 ^ nat k) 1
                  else round_frac (sg * m) (10 ^ nat (- k))))"

section \<open>int() and float()\<close>

fun py_int :: "pyval \<Rightarrow> int res" where
  "py_int (PyBool b) = Inr (if b then 1 else 0)"
| "py_int (PyInt i) = Inr i"
| "py_int (PyFloat f) = float_trunc f"
| "py_int (PyStr s) = (case parse_int s of
       Some i \<Rightarrow> Inr i
     | None \<Rightarrow> Inl (ValueError (''invalid literal for int() with base 10: '' @ quoted s)))"
| "py_int v = Inl (TypeError (''int() argument must be a string, a bytes-like object or a real number, not ''
      @ quoted (type_name v)))"

fun py_float :: "pyval \<Rightarrow> pyfloat res" where
  "py_float (PyBool b) = Inr (Fin (if b then 1 else 0) 0)"
| "py_float (PyInt i) = float_of_int i"
| "py_float (PyFloat f) = Inr f"
| "py_float (PyStr s) = (case parse_float s of
       Some f \<Rightarrow> Inr f
     | None \<Rightarrow> Inl (ValueError (''could not convert string to float: '' @ quoted s)))"
| "py_float v = Inl (TypeError (''float() argument must be a string or a real number, not ''
      @ quoted (type_name v)))"

section \<open>Finite numbers\<close>

text \<open>The exact value of a finite number (\<^verbatim>\<open>bool\<close>, \<^verbatim>\<open>int\<close> or finite \<^verbatim>\<open>float\<close>).\<close>

fun fin_num :: "pyval \<Rightarrow> rat option" where
  "fin_num (PyBool b) = Some (if b then 1 else 0)"
| "fin_num (PyInt i) = Some (of_int i)"
| "fin_num (PyFloat (Fin m e)) = Some (fval m e)"
| "fin_num v = None"

definition num_val :: "pyval \<Rightarrow> rat" where
  "num_val v = (case fin_num v of Some r \<Rightarrow> r | None \<Rightarrow> 0)"

definition is_fin_num :: "pyval \<Rightarrow> bool" where
  "is_fin_num v \<longleftrightarrow> fin_num v \<noteq> None"

lemma fin_num_float:
  "fin_num v = Some r \<Longrightarrow> \<exists>m e. num_float v = Some (Fin m e) \<and> fval m e = r"
  by (cases v rule: fin_num.cases) (auto simp: fval_def)

lemma fin_num_not_seq: "fin_num v = Some r \<Longrightarrow> v \<noteq> PyStr s \<and> v \<noteq> PyList xs \<and> v \<noteq> PyTuple xs"
  by auto

lemma py_cmp_num:
  assumes a: "num_float a = Some x" and b: "num_float b = Some y"
  shows "py_cmp op a b = Inr (case op of Lt \<Rightarrow> flt x y | Gt \<Rightarrow> flt y x)"
  using a b by (cases a; cases b) simp_all

lemma py_cmp_fin:
  assumes a: "fin_num a = Some x" and b: "fin_num b = Some y"
  shows "py_cmp Lt a b = Inr (x < y)" and "py_cmp Gt a b = Inr (y < x)"
proof -
  obtain m e where ma: "num_float a = Some (Fin m e)" and va: "fval m e = x"
    using fin_num_float [OF a] by blast
  obtain m' e' where mb: "num_float b = Some (Fin m' e')" and vb: "fval m' e' = y"
    using fin_num_float [OF b] by blast
  show "py_cmp Lt a b = Inr (x < y)" and "py_cmp Gt a b = Inr (y < x)"
    using py_cmp_num [OF ma mb] va vb by (simp_all add: dyadic_less_iff)
qed

text \<open>
  On finite numbers \<^verbatim>\<open>min\<close> and \<^verbatim>\<open>max\<close> return an item of the list whose value is
  the least (greatest) value of the list.
\<close>

lemma minmax_from_fin:
  assumes "list_all is_fin_num (m # xs)"
  shows "\<exists>r. minmax_from Lt m xs = Inr r \<and> r \<in> set (m # xs)
              \<and> (\<forall>v\<in>set (m # xs). num_val r \<le> num_val v)"
    and "\<exists>r. minmax_from Gt m xs = Inr r \<and> r \<in> set (m # xs)
              \<and> (\<forall>v\<in>set (m # xs). num_val v \<le> num_val r)"
  using assms
proof (induction xs arbitrary: m)
  case Nil
  { case 1 show ?case by simp }
  { case 2 show ?case by simp }
next
  case (Cons x xs)
  { case 1
    obtain a b where a: "fin_num x = Some a" and b: "fin_num m = Some b"
      using "1" by (auto simp: is_fin_num_def)
    let ?m' = "if a < b then x else m"
    have step: "minmax_from Lt m (x # xs) = minmax_from Lt ?m' xs"
      using py_cmp_fin(1) [OF a b] by simp
    have "list_all is_fin_num (?m' # xs)" using "1" by auto
    then obtain r where r: "minmax_from Lt ?m' xs = Inr r" "r \<in> set (?m' # xs)"
      "\<forall>v\<in>set (?m' # xs). num_val r \<le> num_val v"
      using Cons.IH(1) by blast
    have i1: "num_val r \<le> num_val x" and i2: "num_val r \<le> num_val m"
      using r(3) a b by (auto simp: num_val_def split: if_splits)
    have e: "minmax_from Lt m (x # xs) = Inr r" using step r(1) by (simp only:)
    have "r \<in> set (m # x # xs)" using r(2) by (auto split: if_splits)
    moreover have "\<forall>v\<in>set (m # x # xs). num_val r \<le> num_val v" using r(3) i1 i2 by auto
    ultimately show ?case using e by blast }
  { case 2
    obtain a b where a: "fin_num x = Some a" and b: "fin_num m = Some b"
      using "2" by (auto simp: is_fin_num_def)
    let ?m' = "if b < a then x else m"
    have step: "minmax_from Gt m (x # xs) = minmax_from Gt ?m' xs"
      using py_cmp_fin(2) [OF a b] by simp
    have "list_all is_fin_num (?m' # xs)" using "2" by auto
    then obtain r where r: "minmax_from Gt ?m' xs = Inr r" "r \<in> set (?m' # xs)"
      "\<forall>v\<in>set (?m' # xs). num_val v \<le> num_val r"
      using Cons.IH(2) by blast
    have i1: "num_val x \<le> num_val r" and i2: "num_val m \<le> num_val r"
      using r(3) a b by (auto simp: num_val_def split: if_splits)
    have e: "minmax_from Gt m (x # xs) = Inr r" using step r(1) by (simp only:)
    have "r \<in> set (m # x # xs)" using r(2) by (auto split: if_splits)
    moreover have "\<forall>v\<in>set (m # x # xs). num_val v \<le> num_val r" using r(3) i1 i2 by auto
    ultimately show ?case using e by blast }
qed

lemma py_min_fin:
  assumes "xs \<noteq> []" "list_all is_fin_num xs"
  shows "\<exists>r. py_min xs = Inr r \<and> r \<in> set xs \<and> (\<forall>v\<in>set xs. num_val r \<le> num_val v)"
  using assms minmax_from_fin(1) by (cases xs) (auto simp: py_min_def)

lemma py_max_fin:
  assumes "xs \<noteq> []" "list_all is_fin_num xs"
  shows "\<exists>r. py_max xs = Inr r \<and> r \<in> set xs \<and> (\<forall>v\<in>set xs. num_val v \<le> num_val r)"
  using assms minmax_from_fin(2) by (cases xs) (auto simp: py_max_def)

lemma py_int_fin: "fin_num v = Some r \<Longrightarrow> py_int v = Inr (trunc_rat r)"
  by (cases v rule: fin_num.cases) (auto simp: float_trunc_Fin trunc_rat_def simp del: float_trunc.simps)

text \<open>\<^verbatim>\<open>int(min(xs))\<close> and \<^verbatim>\<open>int(max(xs))\<close> on finite numbers.\<close>

lemma int_of_min_fin:
  assumes "xs \<noteq> []" "list_all is_fin_num xs"
  shows "bind_res (py_min xs) py_int = Inr (trunc_rat (Min (set (map num_val xs))))"
proof -
  obtain r where r: "py_min xs = Inr r" "r \<in> set xs" "\<forall>v\<in>set xs. num_val r \<le> num_val v"
    using py_min_fin [OF assms] by blast
  have "Min (set (map num_val xs)) = num_val r"
    using r(2,3) by (intro Min_eqI) auto
  moreover have "fin_num r = Some (num_val r)"
    using r(2) assms(2) by (auto simp: list_all_iff is_fin_num_def num_val_def)
  ultimately show ?thesis using r(1) by (simp add: py_int_fin)
qed

lemma int_of_max_fin:
  assumes "xs \<noteq> []" "list_all is_fin_num xs"
  shows "bind_res (py_max xs) py_int = Inr (trunc_rat (Max (set (map num_val xs))))"
proof -
  obtain r where r: "py_max xs = Inr r" "r \<in> set xs" "\<forall>v\<in>set xs. num_val v \<le> num_val r"
    using py_max_fin [OF assms] by blast
  have "Max (set (map num_val xs)) = num_val r"
    using r(2,3) by (intro Max_eqI) auto
  moreover have "fin_num r = Some (num_val r)"
    using r(2) assms(2) by (auto simp: list_all_iff is_fin_num_def num_val_def)
  ultimately show ?thesis using r(1) by (simp add: py_int_fin)
qed

lemma py_getitem_seq:
  "is_list_or_tuple v \<Longrightarrow> i < length (seq_items v) \<Longrightarrow> py_getitem v (int i) = Inr (seq_items v ! i)"
  by (cases v) (simp_all add: py_index_def)

lemma py_iter_seq: "is_list_or_tuple v \<Longrightarrow> py_iter v = Inr (seq_items v)"
  by (cases v) simp_all

end
