(* ===== verification/Recognition.thy ===== *)
theory Recognition
  imports PyValue
begin

text \<open>
  The recognition invoker \<^verbatim>\<open>run_easyocr\<close> (lines 41--49 of
  \<^verbatim>\<open>src/python-ocr/ocr_service.py\<close>). EasyOCR is an external library: it is the
  interface record \<open>('img, 'r) easyocr\<close> of the two calls the program makes, the
  constructor \<^verbatim>\<open>easyocr.Reader\<close> and the method \<^verbatim>\<open>readtext\<close>, each of which
  may raise. The detections come back as a Python list of arbitrary values.
\<close>

record reader_config =
  lang_list :: "string list"
  gpu :: bool
  verbose :: bool

record readtext_options =
  detail :: int
  paragraph_mode :: bool

record ('img, 'r) easyocr =
  Reader :: "reader_config \<Rightarrow> 'r res"
  readtext :: "'r \<Rightarrow> 'img \<Rightarrow> readtext_options \<Rightarrow> pyval list res"

text \<open>Line 47: \<^verbatim>\<open>easyocr.Reader(['en'], gpu=True, verbose=False)\<close>.\<close>

definition en_gpu_config :: reader_config where
  "en_gpu_config = \<lparr>lang_list = [''en''], gpu = True, verbose = False\<rparr>"

text \<open>Line 48: \<^verbatim>\<open>readtext(numpy_image, detail=1, paragraph=True)\<close>.\<close>

definition paragraph_options :: readtext_options where
  "paragraph_options = \<lparr>detail = 1, paragraph_mode = True\<rparr>"

definition run_easyocr :: "('img, 'r) easyocr \<Rightarrow> 'img \<Rightarrow> pyval list res" where
  "run_easyocr ocr numpy_image =
     bind_res (Reader ocr en_gpu_config) (\<lambda>reader.
       readtext ocr reader numpy_image paragraph_options)"

text \<open>
  What EasyOCR does in paragraph mode: it merges lines into blocks and reports each block
  as a pair \<^verbatim>\<open>[box, text]\<close>, without a confidence. \<open>paragraph_pairs ocr\<close> states
  this of an engine: every detection returned for \<open>paragraph_mode = True\<close> is a two-item list.
\<close>

definition paragraph_pairs :: "('img, 'r) easyocr \<Rightarrow> bool" where
  "paragraph_pairs ocr \<longleftrightarrow>
     (\<forall>r img opts rs. paragraph_mode opts \<longrightarrow> readtext ocr r img opts = Inr rs \<longrightarrow>
        list_all (\<lambda>d. is_list_or_tuple d \<and> length (seq_items d) = 2) rs)"

text \<open>
  A concrete engine for witnesses: it accepts any configuration and returns the given
  detections for any image.
\<close>

definition const_engine :: "pyval list \<Rightarrow> ('img, unit) easyocr" where
  "const_engine rs = \<lparr>Reader = (\<lambda>cfg. Inr ()), readtext = (\<lambda>r img opts. Inr rs)\<rparr>"

text \<open>The engine sees the fixed configuration; its exceptions propagate unchanged.\<close>

theorem run_easyocr_calls:
  "run_easyocr ocr img = Inr rs \<longleftrightarrow>
     (\<exists>reader. Reader ocr \<lparr>lang_list = [''en''], gpu = True, verbose = False\<rparr> = Inr reader
        \<and> readtext ocr reader img \<lparr>detail = 1, paragraph_mode = True\<rparr> = Inr rs)"
  by (simp add: run_easyocr_def bind_res_eq_Inr en_gpu_config_def paragraph_options_def)

theorem run_easyocr_errors:
  "run_easyocr ocr img = Inl e \<longleftrightarrow>
     Reader ocr en_gpu_config = Inl e
     \<or> (\<exists>reader. Reader ocr en_gpu_config = Inr reader
         \<and> readtext ocr reader img paragraph_options = Inl e)"
  by (simp add: run_easyocr_def bind_res_eq_Inl)

text \<open>In paragraph mode every returned detection is a pair.\<close>

lemma run_easyocr_pairs:
  assumes "paragraph_pairs ocr" "run_easyocr ocr img = Inr rs"
  shows "list_all (\<lambda>d. is_list_or_tuple d \<and> length (seq_items d) = 2) rs"
proof -
  obtain reader where "readtext ocr reader img paragraph_options = Inr rs"
    using assms(2) by (auto simp: run_easyocr_def bind_res_eq_Inr)
  moreover have "paragraph_mode paragraph_options" by (simp add: paragraph_options_def)
  ultimately show ?thesis using assms(1) unfolding paragraph_pairs_def by blast
qed

end
