(* ===== verification/Formatter.thy ===== *)
theory Formatter
  imports PyValue
begin

text \<open>
  The result formatter: the loop of \<^verbatim>\<open>main\<close> in
  \<^verbatim>\<open>src/python-ocr/ocr_service.py\<close>, lines 70--93, that turns the engine's detections
  into output records. A detection is any Python value; one that is not a list or tuple,
  or has fewer than two items, is skipped; otherwise its first item is the polygon, its
  second the text and its third, if present, the confidence (default \<open>1.0\<close>). The
  bounding box is \<^verbatim>\<open>int(min(xs))\<close>, \<^verbatim>\<open>int(min(ys))\<close>, \<^verbatim>\<open>int(max(xs))\<close>,
  \<^verbatim>\<open>int(max(ys))\<close>. Any exception inside the loop escapes it.
\<close>

section \<open>Output records\<close>

text \<open>The dictionary appended at lines 89--93.\<close>

record out_rec =
  out_text :: pyval
  out_confidence :: pyfloat
  out_bbox :: "int list"

section \<open>One detection\<close>

text \<open>
  The body of the loop, lines 72--93, in the source's order of evaluation: the two
  guards, the three items, the two comprehensions, the four \<^verbatim>\<open>int(min/max)\<close> in the
  order of lines 86--87, and \<^verbatim>\<open>float(confidence)\<close> when the dictionary is built.
  \<open>None\<close> is \<^verbatim>\<open>continue\<close>.
\<close>

definition format_detection :: "pyval \<Rightarrow> out_rec option res" where
  "format_detection result =
     (if \<not> is_list_or_tuple result then Inr None
      else if length (seq_items result) < 2 then Inr None
      else
        bind_res (py_getitem result 0) (\<lambda>coords.
        bind_res (py_getitem result 1) (\<lambda>text.
        bind_res (if 3 \<le> length (seq_items result) then py_getitem result 2
                  else Inr (PyFloat (Fin 1 0))) (\<lambda>confidence.
        bind_res (bind_res (py_iter coords) (map_res (\<lambda>pt. py_getitem pt 0))) (\<lambda>xs.
        bind_res (bind_res (py_iter coords) (map_res (\<lambda>pt. py_getitem pt 1))) (\<lambda>ys.
        bind_res (bind_res (py_min xs) py_int) (\<lambda>min_x.
        bind_res (bind_res (py_max xs) py_int) (\<lambda>max_x.
        bind_res (bind_res (py_min ys) py_int) (\<lambda>min_y.
        bind_res (bind_res (py_max ys) py_int) (\<lambda>max_y.
        bind_res (py_float confidence) (\<lambda>conf.
          Inr (Some \<lparr>out_text = text, out_confidence = conf,
                     out_bbox = [min_x, min_y, max_x, max_y]\<rparr>))))))))))))"

section \<open>The loop\<close>

text \<open>
  Lines 71--93: \<^verbatim>\<open>output_data\<close> starts empty and each formatted detection is appended;
  the first exception ends the loop and the program.
\<close>

fun build_output :: "out_rec list \<Rightarrow> pyval list \<Rightarrow> out_rec list res" where
  "build_output output_data [] = Inr output_data"
| "build_output output_data (result # rest) =
     bind_res (format_detection result) (\<lambda>r.
       build_output (case r of None \<Rightarrow> output_data | Some d \<Rightarrow> output_data @ [d]) rest)"

definition format_results :: "pyval list \<Rightarrow> out_rec list res" where
  "format_results ocr_results = build_output [] ocr_results"

section \<open>Well-formed detections and the exact bounding box\<close>

text \<open>
  A point with two finite numeric coordinates; a polygon that is a non-empty list or
  tuple of such points. \<open>exact_bbox\<close> is the box the spec describes: the extremes of
  the exact coordinate values, truncated towards zero.
\<close>

definition wf_point :: "pyval \<Rightarrow> bool" where
  "wf_point pt \<longleftrightarrow> is_list_or_tuple pt \<and> 2 \<le> length (seq_items pt)
     \<and> is_fin_num (seq_items pt ! 0) \<and> is_fin_num (seq_items pt ! 1)"

definition wf_polygon :: "pyval \<Rightarrow> bool" where
  "wf_polygon coords \<longleftrightarrow> is_list_or_tuple coords \<and> seq_items coords \<noteq> []
     \<and> list_all wf_point (seq_items coords)"

definition coord_values :: "nat \<Rightarrow> pyval \<Rightarrow> rat list" where
  "coord_values k coords = map (\<lambda>pt. num_val (seq_items pt ! k)) (seq_items coords)"

definition exact_bbox :: "pyval \<Rightarrow> int list" where
  "exact_bbox coords =
     [trunc_rat (Min (set (coord_values 0 coords))), trunc_rat (Min (set (coord_values 1 coords))),
      trunc_rat (Max (set (coord_values 0 coords))), trunc_rat (Max (set (coord_values 1 coords)))]"

definition confidence_item :: "pyval \<Rightarrow> pyval" where
  "confidence_item result =
     (if 3 \<le> length (seq_items result) then seq_items result ! 2 else PyFloat (Fin 1 0))"

lemma wf_point_item:
  assumes "wf_point pt" "k < 2"
  shows "py_getitem pt (int k) = Inr (seq_items pt ! k)" and "is_fin_num (seq_items pt ! k)"
proof -
  have "k < length (seq_items pt)" using assms by (simp add: wf_point_def)
  with assms(1) show "py_getitem pt (int k) = Inr (seq_items pt ! k)"
    by (simp add: wf_point_def py_getitem_seq)
  show "is_fin_num (seq_items pt ! k)" using assms by (auto simp: wf_point_def less_2_cases_iff)
qed

lemma coords_of_polygon:
  assumes "wf_polygon coords" "k < 2"
  shows "bind_res (py_iter coords) (map_res (\<lambda>pt. py_getitem pt (int k)))
           = Inr (map (\<lambda>pt. seq_items pt ! k) (seq_items coords))"
    and "map (\<lambda>pt. seq_items pt ! k) (seq_items coords) \<noteq> []"
    and "list_all is_fin_num (map (\<lambda>pt. seq_items pt ! k) (seq_items coords))"
    and "map num_val (map (\<lambda>pt. seq_items pt ! k) (seq_items coords)) = coord_values k coords"
proof -
  have pts: "\<forall>pt\<in>set (seq_items coords). wf_point pt"
    using assms(1) by (simp add: wf_polygon_def list_all_iff)
  then have "\<forall>pt\<in>set (seq_items coords). py_getitem pt (int k) = Inr (seq_items pt ! k)"
    using assms(2) wf_point_item(1) by blast
  then show "bind_res (py_iter coords) (map_res (\<lambda>pt. py_getitem pt (int k)))
           = Inr (map (\<lambda>pt. seq_items pt ! k) (seq_items coords))"
    using assms(1) by (simp add: wf_polygon_def py_iter_seq map_res_all_Inr)
  show "map (\<lambda>pt. seq_items pt ! k) (seq_items coords) \<noteq> []"
    using assms(1) by (simp add: wf_polygon_def)
  show "list_all is_fin_num (map (\<lambda>pt. seq_items pt ! k) (seq_items coords))"
    using pts assms(2) wf_point_item(2) by (auto simp: list_all_iff)
  show "map num_val (map (\<lambda>pt. seq_items pt ! k) (seq_items coords)) = coord_values k coords"
    by (simp add: coord_values_def)
qed

lemma format_items:
  assumes r: "is_list_or_tuple result" and l: "2 \<le> length (seq_items result)"
  shows "py_getitem result 0 = Inr (seq_items result ! 0)"
    and "py_getitem result 1 = Inr (seq_items result ! 1)"
    and "(if 3 \<le> length (seq_items result) then py_getitem result 2 else Inr (PyFloat (Fin 1 0)))
           = Inr (confidence_item result)"
proof -
  have "0 < length (seq_items result)" "1 < length (seq_items result)" using l by linarith+
  then show "py_getitem result 0 = Inr (seq_items result ! 0)"
    and "py_getitem result 1 = Inr (seq_items result ! 1)"
    using py_getitem_seq [OF r, of 0] py_getitem_seq [OF r, of 1] by simp_all
  have "3 \<le> length (seq_items result) \<Longrightarrow> py_getitem result 2 = Inr (seq_items result ! 2)"
    using py_getitem_seq [OF r, of 2] by simp
  then show "(if 3 \<le> length (seq_items result) then py_getitem result 2 else Inr (PyFloat (Fin 1 0)))
           = Inr (confidence_item result)"
    by (simp add: confidence_item_def)
qed

text \<open>Concrete detections for the witnesses: the spec's polygon with and without a confidence.\<close>

definition hi_polygon :: pyval where
  "hi_polygon = PyList [PyList [PyInt 10, PyInt 20], PyList [PyInt 50, PyInt 20],
                        PyList [PyInt 50, PyInt 40], PyList [PyInt 10, PyInt 40]]"

definition hi_detection :: pyval where
  "hi_detection = PyList [hi_polygon, PyStr ''Hi'', PyFloat (Fin 7836263351624663 (-53))]"

definition hi_pair :: pyval where
  "hi_pair = PyTuple [hi_polygon, PyStr ''Hi'']"

section \<open>Properties of one detection\<close>

text \<open>C9: A detection is skipped exactly when the two guards of lines 74--77 say so.\<close>

theorem format_detection_None:
  "format_detection result = Inr None \<longleftrightarrow>
     \<not> is_list_or_tuple result \<or> length (seq_items result) < 2"
  by (auto simp: format_detection_def bind_res_eq_Inr)

text \<open>
  On a detection whose polygon is well formed, the formatter produces exactly the record
  with the text, the converted confidence and the exact box; \<^verbatim>\<open>float(confidence)\<close>
  is the only step that can still fail.
\<close>

lemma format_detection_wf_eq:
  assumes r: "is_list_or_tuple result" "2 \<le> length (seq_items result)"
    and p: "wf_polygon (seq_items result ! 0)"
  shows "format_detection result =
           bind_res (py_float (confidence_item result)) (\<lambda>c.
             Inr (Some \<lparr>out_text = seq_items result ! 1, out_confidence = c,
                        out_bbox = exact_bbox (seq_items result ! 0)\<rparr>))"
proof -
  note it = format_items [OF r]
  note x = coords_of_polygon [OF p, of 0, simplified]
  note y = coords_of_polygon [OF p, of 1, simplified]
  show ?thesis
    using r it x y
    by (simp add: format_detection_def int_of_min_fin int_of_max_fin exact_bbox_def)
qed

text \<open>C4: On a detection that is a list or tuple of at least two items whose polygon is a non-empty sequence of points with two finite numeric coordinates, the loop body produces exactly the record of the text, float(confidence) (1.0 when absent) and the box [trunc(min x), trunc(min y), trunc(max x), trunc(max y)] of the exact coordinate values.\<close>

theorem format_detection_wf:
  assumes "is_list_or_tuple result" "2 \<le> length (seq_items result)"
    and "wf_polygon (seq_items result ! 0)"
  shows "format_detection result =
           bind_res (py_float (confidence_item result)) (\<lambda>c.
             Inr (Some \<lparr>out_text = seq_items result ! 1, out_confidence = c,
                        out_bbox = exact_bbox (seq_items result ! 0)\<rparr>))"
  using format_detection_wf_eq [OF assms] .

text \<open>On a well-formed polygon the box is ordered: \<open>min_x \<le> max_x\<close>, \<open>min_y \<le> max_y\<close>.\<close>

lemma Min_le_Max_set: "xs \<noteq> [] \<Longrightarrow> Min (set xs) \<le> Max (set (xs :: rat list))"
  by (metis List.finite_set Max_ge Min_le last_in_set order_trans)

text \<open>C10: For a detection with a well-formed numeric polygon, the produced box satisfies min_x <= max_x and min_y <= max_y.\<close>

theorem format_detection_bbox_ordered:
  assumes r: "is_list_or_tuple result" "2 \<le> length (seq_items result)"
    and p: "wf_polygon (seq_items result ! 0)"
    and ok: "format_detection result = Inr (Some d)"
  shows "out_bbox d ! 0 \<le> out_bbox d ! 2 \<and> out_bbox d ! 1 \<le> out_bbox d ! 3"
proof -
  have "out_bbox d = exact_bbox (seq_items result ! 0)"
    using ok format_detection_wf_eq [OF r p] by (auto simp: bind_res_eq_Inr)
  moreover have "coord_values 0 (seq_items result ! 0) \<noteq> []"
    "coord_values 1 (seq_items result ! 0) \<noteq> []"
    using p by (simp_all add: coord_values_def wf_polygon_def)
  ultimately show ?thesis
    by (simp add: exact_bbox_def trunc_rat_mono Min_le_Max_set)
qed

text \<open>C15: Without a third item the confidence is \<open>1.0\<close> (line 81).\<close>

theorem format_detection_default_confidence:
  assumes "is_list_or_tuple result" "length (seq_items result) = 2"
    and "format_detection result = Inr (Some d)"
  shows "out_confidence d = Fin 1 0"
  using assms by (auto simp: format_detection_def bind_res_eq_Inr)

section \<open>Properties of the loop\<close>

lemma build_output_eq:
  "build_output acc rs = bind_res (map_res format_detection rs) (\<lambda>os. Inr (acc @ List.map_filter id os))"
proof (induction rs arbitrary: acc)
  case Nil
  then show ?case by (simp add: map_filter_simps)
next
  case (Cons r rs)
  show ?case
  proof (cases "format_detection r")
    case (Inl e)
    then show ?thesis by simp
  next
    case (Inr o)
    then show ?thesis
      using Cons.IH by (cases "map_res format_detection rs") (auto simp: map_filter_simps split: option.splits)
  qed
qed

text \<open>Every output record comes from one of the detections.\<close>

lemma format_results_records:
  assumes "format_results ocr_results = Inr output_data" "d \<in> set output_data"
  shows "\<exists>r\<in>set ocr_results. format_detection r = Inr (Some d)"
proof -
  obtain os where os: "map_res format_detection ocr_results = Inr os"
    and out: "output_data = List.map_filter id os"
    using assms(1) by (auto simp: format_results_def build_output_eq bind_res_eq_Inr)
  have "Some d \<in> set os" using assms(2) out by (auto simp: map_filter_def)
  then obtain i where i: "i < length os" "os ! i = Some d" by (auto simp: in_set_conv_nth)
  have "length os = length ocr_results" using os by (rule map_res_Inr_length)
  with i map_res_Inr_nth [OF os, of i] show ?thesis by (metis nth_mem)
qed

text \<open>
  C5: The loop with its accumulator is the map of the body over the detections, keeping the
  records in order and dropping the skipped ones.
\<close>

theorem format_results_map_filter:
  "format_results ocr_results =
     bind_res (map_res format_detection ocr_results) (\<lambda>os. Inr (List.map_filter id os))"
  by (simp add: format_results_def build_output_eq)

text \<open>
  The output has one record per detection that passes the guards and none for the others:
  no placeholder is ever produced.
\<close>

lemma map_filter_id_length:
  "list_all2 (\<lambda>x y. f x = Inr y) xs ys \<Longrightarrow>
     length (List.map_filter id ys) = length (filter (\<lambda>x. f x \<noteq> Inr None) xs)"
  by (induction rule: list_all2_induct) (auto simp: map_filter_simps split: option.splits)

text \<open>C8: When the loop succeeds, the output has exactly one record per detection that is a list or tuple with at least two items, so it is never longer than the input and contains no placeholder.\<close>

theorem format_results_length:
  assumes "format_results ocr_results = Inr output_data"
  shows "length output_data =
           length (filter (\<lambda>r. is_list_or_tuple r \<and> 2 \<le> length (seq_items r)) ocr_results)"
proof -
  obtain os where os: "map_res format_detection ocr_results = Inr os"
    and out: "output_data = List.map_filter id os"
    using assms by (auto simp: format_results_def build_output_eq bind_res_eq_Inr)
  have "list_all2 (\<lambda>x y. format_detection x = Inr y) ocr_results os"
    using os by (simp add: map_res_Inr_iff)
  then have "length output_data = length (filter (\<lambda>x. format_detection x \<noteq> Inr None) ocr_results)"
    by (simp add: out map_filter_id_length)
  also have "(\<lambda>x. format_detection x \<noteq> Inr None) = (\<lambda>r. is_list_or_tuple r \<and> 2 \<le> length (seq_items r))"
    by (rule ext) (auto simp: format_detection_def bind_res_eq_Inr not_less)
  finally show ?thesis .
qed

text \<open>
  C6: All or nothing: the loop raises exactly the exception of the first detection that
  raises one, and then no output is produced.
\<close>

theorem format_results_first_error:
  "format_results ocr_results = Inl e \<longleftrightarrow>
     (\<exists>pre r post. ocr_results = pre @ r # post
        \<and> list_all (\<lambda>q. \<not> isl (format_detection q)) pre \<and> format_detection r = Inl e)"
proof -
  have "format_results ocr_results = Inl e \<longleftrightarrow> map_res format_detection ocr_results = Inl e"
    by (cases "map_res format_detection ocr_results") (simp_all add: format_results_def build_output_eq)
  then show ?thesis by (simp add: map_res_Inl_iff)
qed

section \<open>Concrete detections\<close>

text \<open>
  The spec's scenario (section 8): polygon \<open>[[10,20],[50,20],[50,40],[10,40]]\<close>, text
  \<open>Hi\<close>, confidence \<open>0.87\<close> (the double \<^verbatim>\<open>float("0.87")\<close>).
\<close>

theorem format_detection_spec_example:
  "parse_float ''0.87'' = Some (Fin 7836263351624663 (-53))
   \<and> format_detection (PyList [PyList [PyList [PyInt 10, PyInt 20], PyList [PyInt 50, PyInt 20],
                                       PyList [PyInt 50, PyInt 40], PyList [PyInt 10, PyInt 40]],
                               PyStr ''Hi'', PyFloat (Fin 7836263351624663 (-53))])
     = Inr (Some \<lparr>out_text = PyStr ''Hi'', out_confidence = Fin 7836263351624663 (-53),
                  out_bbox = [10, 20, 50, 40]\<rparr>)"
  by code_simp

text \<open>
  Coordinates that are strings are compared as strings by \<^verbatim>\<open>min\<close>/\<^verbatim>\<open>max\<close> and then
  parsed by \<^verbatim>\<open>int\<close>: \<open>"10" < "9"\<close>, so the box comes out with \<open>min_x > max_x\<close>.
\<close>

theorem format_detection_string_coords:
  "format_detection (PyList [PyList [PyList [PyStr ''9'', PyInt 0], PyList [PyStr ''10'', PyInt 0]],
                             PyStr ''t''])
     = Inr (Some \<lparr>out_text = PyStr ''t'', out_confidence = Fin 1 0, out_bbox = [10, 0, 9, 0]\<rparr>)"
  by code_simp

text \<open>
  A negative fractional coordinate is truncated towards zero: \<open>-1.5\<close> gives \<open>-1\<close>,
  where the floor the spec's formula names would give \<open>-2\<close>.
\<close>

theorem format_detection_negative_coord:
  "format_detection (PyList [PyList [PyList [PyFloat (Fin (-3) (-1)), PyInt 0],
                                     PyList [PyInt 5, PyInt 2]], PyStr ''a''])
     = Inr (Some \<lparr>out_text = PyStr ''a'', out_confidence = Fin 1 0, out_bbox = [-1, 0, 5, 2]\<rparr>)
   \<and> fval (-3) (-1) = -3 / 2 \<and> \<lfloor>fval (-3) (-1)\<rfloor> = -2"
  by code_simp

section \<open>Error branches\<close>

text \<open>C16: An empty polygon makes \<^verbatim>\<open>min(xs)\<close> raise \<^verbatim>\<open>ValueError\<close> (line 86).\<close>

theorem format_detection_empty_polygon:
  assumes "is_list_or_tuple result" "2 \<le> length (seq_items result)"
    and "seq_items (seq_items result ! 0) = []" "is_list_or_tuple (seq_items result ! 0)"
  shows "format_detection result = Inl (ValueError ''min() arg is an empty sequence'')"
  using assms format_items [OF assms(1,2)]
  by (simp add: format_detection_def py_iter_seq py_min_def)

text \<open>C17: A polygon that is a number (bool, int or float, NaN and the infinities included) or \<^verbatim>\<open>None\<close> is not iterable (line 84).\<close>

theorem format_detection_polygon_not_iterable:
  assumes "is_list_or_tuple result" "2 \<le> length (seq_items result)"
    and "num_float (seq_items result ! 0) \<noteq> None \<or> seq_items result ! 0 = PyNone"
  shows "format_detection result =
           Inl (TypeError (quoted (type_name (seq_items result ! 0)) @ '' object is not iterable''))"
proof -
  have "py_iter (seq_items result ! 0) =
          Inl (TypeError (quoted (type_name (seq_items result ! 0)) @ '' object is not iterable''))"
    using assms(3) by (cases "seq_items result ! 0" rule: num_float.cases) auto
  moreover have "\<not> length (seq_items result) < 2" using assms(2) by simp
  ultimately show ?thesis using format_items [OF assms(1,2)] assms(1)
    by (simp add: format_detection_def)
qed

text \<open>A NaN as first x coordinate survives \<^verbatim>\<open>min\<close> and makes \<^verbatim>\<open>int\<close> raise.\<close>

theorem format_detection_nan_coord:
  "format_detection (PyList [PyList [PyList [PyFloat NaN, PyInt 0], PyList [PyInt 5, PyInt 2]],
                             PyStr ''a''])
     = Inl (ValueError ''cannot convert float NaN to integer'')"
  by code_simp

section \<open>Witnesses\<close>

theorem format_detection_None_witness:
  "format_detection (PyInt 3) = Inr None \<and> format_detection (PyList [PyStr ''x'']) = Inr None"
  using format_detection_None [of "PyInt 3"] format_detection_None [of "PyList [PyStr ''x'']"]
  by simp

theorem format_detection_wf_witness:
  "format_detection hi_detection =
     bind_res (py_float (confidence_item hi_detection)) (\<lambda>c.
       Inr (Some \<lparr>out_text = seq_items hi_detection ! 1, out_confidence = c,
                  out_bbox = exact_bbox (seq_items hi_detection ! 0)\<rparr>))"
  by (rule format_detection_wf)
     (simp_all add: hi_detection_def hi_polygon_def wf_polygon_def wf_point_def is_fin_num_def)

theorem format_detection_bbox_ordered_witness:
  "out_bbox \<lparr>out_text = PyStr ''Hi'', out_confidence = Fin 7836263351624663 (-53),
             out_bbox = [10, 20, 50, 40]\<rparr> ! 0
     \<le> out_bbox \<lparr>out_text = PyStr ''Hi'', out_confidence = Fin 7836263351624663 (-53),
             out_bbox = [10, 20, 50, 40]\<rparr> ! 2
   \<and> out_bbox \<lparr>out_text = PyStr ''Hi'', out_confidence = Fin 7836263351624663 (-53),
             out_bbox = [10, 20, 50, 40]\<rparr> ! 1
     \<le> out_bbox \<lparr>out_text = PyStr ''Hi'', out_confidence = Fin 7836263351624663 (-53),
             out_bbox = [10, 20, 50, 40]\<rparr> ! 3"
proof -
  have h: "format_detection hi_detection = Inr (Some \<lparr>out_text = PyStr ''Hi'',
             out_confidence = Fin 7836263351624663 (-53), out_bbox = [10, 20, 50, 40]\<rparr>)"
    by code_simp
  show ?thesis
    by (rule format_detection_bbox_ordered [OF _ _ _ h])
       (simp_all add: hi_detection_def hi_polygon_def wf_polygon_def wf_point_def is_fin_num_def)
qed

theorem format_detection_default_confidence_witness:
  "out_confidence \<lparr>out_text = PyStr ''Hi'', out_confidence = Fin 1 0, out_bbox = [10, 20, 50, 40]\<rparr>
     = Fin 1 0"
proof -
  have h: "format_detection hi_pair = Inr (Some \<lparr>out_text = PyStr ''Hi'', out_confidence = Fin 1 0,
             out_bbox = [10, 20, 50, 40]\<rparr>)"
    by code_simp
  show ?thesis
    by (rule format_detection_default_confidence [OF _ _ h]) (simp_all add: hi_pair_def)
qed

theorem format_results_length_witness:
  "length [\<lparr>out_text = PyStr ''Hi'', out_confidence = Fin 1 0, out_bbox = [10, 20, 50, 40]\<rparr>]
     = length (filter (\<lambda>r. is_list_or_tuple r \<and> 2 \<le> length (seq_items r))
                      [PyInt 3, hi_pair, PyList [PyStr ''x'']])"
proof -
  have h: "format_results [PyInt 3, hi_pair, PyList [PyStr ''x'']]
             = Inr [\<lparr>out_text = PyStr ''Hi'', out_confidence = Fin 1 0, out_bbox = [10, 20, 50, 40]\<rparr>]"
    by code_simp
  show ?thesis by (rule format_results_length [OF h])
qed

theorem format_results_first_error_witness:
  "format_results [hi_pair, PyList [PyList [], PyStr ''x''], PyInt 3]
     = Inl (ValueError ''min() arg is an empty sequence'')"
proof -
  have "format_detection hi_pair = Inr (Some \<lparr>out_text = PyStr ''Hi'', out_confidence = Fin 1 0,
             out_bbox = [10, 20, 50, 40]\<rparr>)"
    and "format_detection (PyList [PyList [], PyStr ''x''])
           = Inl (ValueError ''min() arg is an empty sequence'')"
    by code_simp+
  then show ?thesis
    by (subst format_results_first_error)
       (intro exI [of _ "[hi_pair]"] exI [of _ "PyList [PyList [], PyStr ''x'']"] exI [of _ "[PyInt 3]"],
        simp)
qed

theorem format_detection_empty_polygon_witness:
  "format_detection (PyTuple [PyList [], PyStr ''x''])
     = Inl (ValueError ''min() arg is an empty sequence'')"
  by (rule format_detection_empty_polygon) simp_all

theorem format_detection_polygon_not_iterable_witness:
  "format_detection (PyList [PyFloat NaN, PyStr ''x''])
     = Inl (TypeError (quoted (type_name (PyFloat NaN)) @ '' object is not iterable''))"
  using format_detection_polygon_not_iterable [of "PyList [PyFloat NaN, PyStr ''x'']"] by simp

end
