(* ===== verification/Json.thy ===== *)
theory Json
  imports Formatter
begin

text \<open>
  The serialisation of line 96, \<^verbatim>\<open>json.dumps(output_data, ensure_ascii=False)\<close>,
  as CPython's C encoder performs it with the default separators \<^verbatim>\<open>', '\<close> and
  \<^verbatim>\<open>': '\<close>: integers in decimal, floats by \<^verbatim>\<open>float.__repr__\<close> (the shortest
  decimal that reads back as the same double) or \<^verbatim>\<open>NaN\<close>/\<^verbatim>\<open>Infinity\<close>,
  strings quoted with only \<^verbatim>\<open>"\<close>, backslash and the control characters escaped.
  Also a decoder for JSON string bodies, to show the escaping loses nothing.
\<close>

section \<open>Decimal digits\<close>

definition digit_char :: "nat \<Rightarrow> char" where
  "digit_char n = char_of (48 + n)"

fun nat_str :: "nat \<Rightarrow> string" where
  "nat_str n = (if n < 10 then [digit_char n] else nat_str (n div 10) @ [digit_char (n mod 10)])"

declare nat_str.simps [simp del]

text \<open>\<^verbatim>\<open>int.__repr__\<close>\<close>

definition int_repr :: "int \<Rightarrow> string" where
  "int_repr i = (if i < 0 then CHR ''-'' # nat_str (nat (- i)) else nat_str (nat i))"

section \<open>Strings\<close>

text \<open>
  The escaping of \<^verbatim>\<open>ensure_ascii=False\<close> (\<^verbatim>\<open>escape_unicode\<close> in
  \<^verbatim>\<open>Modules/_json.c\<close>): quote and backslash, the five short escapes, other code
  points below 32 as \<^verbatim>\<open>\u00xx\<close> in lower-case hex; everything else as is.
\<close>

definition bslash :: char where "bslash = CHR 0x5C"
definition dquote :: char where "dquote = CHR 0x22"

definition hex_digit :: "nat \<Rightarrow> char" where
  "hex_digit n = (if n < 10 then char_of (48 + n) else char_of (87 + n))"

definition json_escape_char :: "char \<Rightarrow> string" where
  "json_escape_char c = (let n = of_char c :: nat in
     if c = dquote then [bslash, dquote]
     else if c = bslash then [bslash, bslash]
     else if n = 8 then [bslash, CHR ''b'']
     else if n = 12 then [bslash, CHR ''f'']
     else if n = 10 then [bslash, CHR ''n'']
     else if n = 13 then [bslash, CHR ''r'']
     else if n = 9 then [bslash, CHR ''t'']
     else if n < 32 then [bslash, CHR ''u'', CHR ''0'', CHR ''0'', hex_digit (n div 16), hex_digit (n mod 16)]
     else [c])"

definition json_string :: "string \<Rightarrow> string" where
  "json_string s = dquote # concat (map json_escape_char s) @ [dquote]"

section \<open>Floats\<close>

text \<open>
  A positive double \<open>v = M * 2 ^ E\<close> with \<open>E = round_exp\<close> (so \<open>M < 2 ^ 53\<close>, and
  \<open>2 ^ 52 \<le> M\<close> unless \<open>v\<close> is subnormal) is the rounding of every real in the interval
  between the midpoints to its neighbours, the midpoints included iff \<open>M\<close> is even (ties
  go to the even significand). In units of \<open>2 ^ (E - 2)\<close> the interval is
  \<open>[4M - c, 4M + 2]\<close>, where \<open>c = 1\<close> at a power of two above the subnormals (the
  neighbour below is closer) and \<open>c = 2\<close> otherwise. \<open>scale_int q F k\<close> writes
  \<open>q * 2 ^ F / 10 ^ k\<close> as a fraction.
\<close>

definition scale_int :: "int \<Rightarrow> int \<Rightarrow> int \<Rightarrow> int \<times> int" where
  "scale_int q F k = (q * 2 ^ nat F * 10 ^ nat (- k), 2 ^ nat (- F) * 10 ^ nat k)"

definition ceil_div :: "int \<Rightarrow> int \<Rightarrow> int" where
  "ceil_div n d = - ((- n) div d)"

text \<open>
  \<open>decimal_candidate M E k\<close> is the integer \<open>D\<close> with \<open>D * 10 ^ k\<close> in the rounding
  interval of \<open>M * 2 ^ E\<close> nearest to it, if there is one: the nearest integer to the
  value in units of \<open>10 ^ k\<close>, clamped to the integers of the interval.
\<close>

definition decimal_candidate :: "int \<Rightarrow> int \<Rightarrow> int \<Rightarrow> int option" where
  "decimal_candidate M E k =
     (let F = E - 2;
          c = (if M = 2 ^ 52 \<and> -1074 < E then 1 else 2);
          closed = even M;
          (ln, ld) = scale_int (4 * M - c) F k;
          (hn, hd) = scale_int (4 * M + 2) F k;
          (vn, vd) = scale_int (4 * M) F k;
          L = (if closed then ceil_div ln ld else ln div ld + 1);
          U = (if closed then hn div hd else ceil_div hn hd - 1);
          D0 = rne_div vn vd
      in if L \<le> U then Some (if D0 < L then L else if U < D0 then U else D0) else None)"

text \<open>
  The shortest digit string: the exponents \<open>k = e10, e10 - 1, \<dots>\<close> are tried from the
  leading digit's position down, seventeen of them (17 significant digits always
  suffice for a double); then trailing zeros are removed.
\<close>

fun shortest_digits :: "int \<Rightarrow> int \<Rightarrow> int \<Rightarrow> nat \<Rightarrow> int \<times> int" where
  "shortest_digits M E k 0 = (rne_div (fst (scale_int (4 * M) (E - 2) k)) (snd (scale_int (4 * M) (E - 2) k)), k)"
| "shortest_digits M E k (Suc n) =
     (case decimal_candidate M E k of Some D \<Rightarrow> (D, k) | None \<Rightarrow> shortest_digits M E (k - 1) n)"

function strip_zeros :: "int \<Rightarrow> int \<Rightarrow> int \<times> int" where
  "strip_zeros D k = (if 0 < D \<and> D mod 10 = 0 then strip_zeros (D div 10) (k + 1) else (D, k))"
  by auto
termination
  by (relation "measure (\<lambda>(D, k). nat D)") auto

declare strip_zeros.simps [simp del]

text \<open>
  The digits \<open>s\<close> of a double with decimal point position \<open>decpt\<close> (the value is
  \<open>0.s * 10 ^ decpt\<close>) as \<^verbatim>\<open>format_float_short\<close> lays them out for \<^verbatim>\<open>repr\<close>:
  exponent notation when \<open>decpt \<le> -4\<close> or \<open>16 < decpt\<close>, with a signed exponent of
  at least two digits; otherwise positional, with \<^verbatim>\<open>.0\<close> added to an integer.
\<close>

definition layout_digits :: "string \<Rightarrow> int \<Rightarrow> string" where
  "layout_digits s decpt =
     (if decpt \<le> -4 \<or> 16 < decpt then
        let x = decpt - 1; xs = nat_str (nat \<bar>x\<bar>) in
        hd s # (if tl s = [] then [] else CHR ''.'' # tl s) @ CHR ''e''
          # (if x < 0 then CHR ''-'' else CHR ''+'') # (if length xs < 2 then CHR ''0'' # xs else xs)
      else if decpt \<le> 0 then ''0.'' @ replicate (nat (- decpt)) (CHR ''0'') @ s
      else if nat decpt < length s then take (nat decpt) s @ CHR ''.'' # drop (nat decpt) s
      else s @ replicate (nat decpt - length s) (CHR ''0'') @ ''.0'')"

text \<open>
  The exact value \<open>a * 2 ^ e\<close> as a fraction \<open>n / d\<close>, and the significand \<open>M\<close> and
  exponent \<open>E\<close> of a positive double given as such a fraction (exact when it is a double).
\<close>

definition dyadic_frac :: "int \<Rightarrow> int \<Rightarrow> int \<times> int" where
  "dyadic_frac a e = (if 0 \<le> e then (a * 2 ^ nat e, 1) else (a, 2 ^ nat (- e)))"

definition sig_exp :: "int \<Rightarrow> int \<Rightarrow> int \<times> int" where
  "sig_exp n d = (let E = round_exp n d in
     (if 0 \<le> E then n div (d * 2 ^ nat E) else n * 2 ^ nat (- E) div d, E))"

text \<open>\<^verbatim>\<open>float.__repr__\<close> of a positive double \<open>a * 2 ^ e\<close>.\<close>

definition pos_float_repr :: "int \<Rightarrow> int \<Rightarrow> string" where
  "pos_float_repr a e =
     (let (n, d) = dyadic_frac a e;
          (M, E) = sig_exp n d;
          (D, k) = shortest_digits M E (flog 10 n d) 16;
          (D', k') = strip_zeros D k;
          s = nat_str (nat D')
      in layout_digits s (k' + int (length s)))"

text \<open>\<^verbatim>\<open>floatstr\<close> of the encoder: \<^verbatim>\<open>allow_nan\<close> is true by default.\<close>

fun json_float :: "pyfloat \<Rightarrow> string" where
  "json_float NaN = ''NaN''"
| "json_float PInf = ''Infinity''"
| "json_float NInf = ''-Infinity''"
| "json_float (Fin m e) =
     (if m = 0 then ''0.0''
      else if m < 0 then CHR ''-'' # pos_float_repr (- m) e else pos_float_repr m e)"

section \<open>Values, records, the output list\<close>

fun comma_join :: "string list \<Rightarrow> string" where
  "comma_join [] = []"
| "comma_join [x] = x"
| "comma_join (x # xs) = x @ '', '' @ comma_join xs"

fun json_value :: "pyval \<Rightarrow> string" where
  "json_value PyNone = ''null''"
| "json_value (PyBool b) = (if b then ''true'' else ''false'')"
| "json_value (PyInt i) = int_repr i"
| "json_value (PyFloat f) = json_float f"
| "json_value (PyStr s) = json_string s"
| "json_value (PyList xs) = CHR ''['' # comma_join (map json_value xs) @ '']''"
| "json_value (PyTuple xs) = CHR ''['' # comma_join (map json_value xs) @ '']''"

text \<open>The dictionary of lines 89--93, its keys in insertion order.\<close>

definition json_record :: "out_rec \<Rightarrow> string" where
  "json_record r =
     ''{'' @ json_string ''text'' @ '': '' @ json_value (out_text r)
     @ '', '' @ json_string ''confidence'' @ '': '' @ json_float (out_confidence r)
     @ '', '' @ json_string ''bbox'' @ '': ''
     @ CHR ''['' # comma_join (map int_repr (out_bbox r)) @ '']'' @ ''}''"

definition json_dumps :: "out_rec list \<Rightarrow> string" where
  "json_dumps output_data = CHR ''['' # comma_join (map json_record output_data) @ '']''"

section \<open>Reading a JSON string back\<close>

text \<open>
  The string token of RFC 8259 as a JSON reader scans it: after the opening quote,
  characters up to the first unescaped quote, where a raw control character is an error
  and a backslash starts one of the escapes \<^verbatim>\<open>\" \\ \/ \b \f \n \r \t \uXXXX\<close>
  (code points below 256 only, as the model's characters). The reader returns the
  decoded text and the rest of the input.
\<close>

definition hex_val :: "char \<Rightarrow> nat option" where
  "hex_val c = (let n = of_char c :: nat in
     if 48 \<le> n \<and> n \<le> 57 then Some (n - 48)
     else if 97 \<le> n \<and> n \<le> 102 then Some (n - 87)
     else if 65 \<le> n \<and> n \<le> 70 then Some (n - 55) else None)"

definition unescape_short :: "char \<Rightarrow> char option" where
  "unescape_short e =
     (if e = dquote then Some dquote else if e = bslash then Some bslash
      else if e = CHR ''/'' then Some (CHR ''/'')
      else if e = CHR ''b'' then Some (char_of (8::nat)) else if e = CHR ''f'' then Some (char_of (12::nat))
      else if e = CHR ''n'' then Some (char_of (10::nat)) else if e = CHR ''r'' then Some (char_of (13::nat))
      else if e = CHR ''t'' then Some (char_of (9::nat)) else None)"

definition hex4 :: "string \<Rightarrow> nat option" where
  "hex4 r = (case those (map hex_val (take 4 r)) of
       Some [h1, h2, h3, h4] \<Rightarrow> Some (((h1 * 16 + h2) * 16 + h3) * 16 + h4)
     | _ \<Rightarrow> None)"

fun lex_str :: "string \<Rightarrow> (string \<times> string) option" where
  "lex_str [] = None"
| "lex_str (c # cs) =
     (if c = dquote then Some ([], cs)
      else if c = bslash then
        (case cs of
           [] \<Rightarrow> None
         | e # r \<Rightarrow>
             if e = CHR ''u'' then
               (case hex4 r of
                  Some v \<Rightarrow> if v < 256 then map_option (apfst (Cons (char_of v))) (lex_str (drop 4 r)) else None
                | None \<Rightarrow> None)
             else (case unescape_short e of
                     Some d \<Rightarrow> map_option (apfst (Cons d)) (lex_str r)
                   | None \<Rightarrow> None))
      else if of_char c < (32::nat) then None
      else map_option (apfst (Cons c)) (lex_str cs))"

definition json_read_string :: "string \<Rightarrow> (string \<times> string) option" where
  "json_read_string t = (case t of c # r \<Rightarrow> if c = dquote then lex_str r else None | [] \<Rightarrow> None)"

lemma hex_val_digit: "k < 16 \<Longrightarrow> hex_val (hex_digit k) = Some k"
  by (auto simp: hex_val_def hex_digit_def)

lemma lex_str_escape_char:
  "lex_str (json_escape_char c @ t) = map_option (apfst (Cons c)) (lex_str t)"
proof -
  define n where "n = (of_char c :: nat)"
  have c: "c = char_of n" by (simp add: n_def)
  have n256: "n < 256" by (simp add: n_def)
  have ne: "dquote \<noteq> CHR ''u''" "bslash \<noteq> CHR ''u''" "bslash \<noteq> dquote"
    by (simp_all add: dquote_def bslash_def)
  show ?thesis
  proof (cases "c = dquote \<or> c = bslash \<or> n \<in> {8, 9, 10, 12, 13}")
    case True
    then show ?thesis
      by (auto simp: json_escape_char_def unescape_short_def ne n_def[symmetric] c
                     dquote_def bslash_def)
  next
    case False
    note F = False
    show ?thesis
    proof (cases "n < 32")
      case True
      have h: "hex4 (CHR ''0'' # CHR ''0'' # hex_digit (n div 16) # hex_digit (n mod 16) # t) = Some n"
        using True by (simp add: hex4_def hex_val_digit) (simp add: hex_val_def)
      show ?thesis
        using True F h n256
        by (simp add: json_escape_char_def n_def[symmetric] Let_def bslash_def dquote_def)
           (simp add: c)
    next
      case False
      then have "json_escape_char c = [c]"
        using F by (simp add: json_escape_char_def n_def[symmetric] Let_def)
      with False F show ?thesis by (simp add: n_def)
    qed
  qed
qed

lemma lex_str_escaped:
  "lex_str (concat (map json_escape_char s) @ dquote # rest) = Some (s, rest)"
  by (induction s) (simp_all add: lex_str_escape_char)

text \<open>Every string json.dumps writes (the text field) is read back by a JSON string reader as exactly the original text, followed by the rest of the document: quotes, backslashes and control characters are escaped.\<close>

theorem json_string_read_back:
  "json_read_string (json_string s @ rest) = Some (s, rest)"
  by (simp add: json_string_def json_read_string_def lex_str_escaped)

section \<open>Integers read back\<close>

lemma of_char_digit: "k < 10 \<Longrightarrow> of_char (digit_char k) = 48 + k"
  by (simp add: digit_char_def)

lemma nat_str_props:
  "nat_str n \<noteq> [] \<and> list_all is_dec (nat_str n) \<and> digits_value (nat_str n) = n"
proof (induction n rule: nat_str.induct)
  case (1 n)
  show ?case
  proof (cases "n < 10")
    case True
    then show ?thesis
      by (simp add: nat_str.simps [of n] is_dec_def digits_value_def of_char_digit)
  next
    case False
    then have IH: "nat_str (n div 10) \<noteq> []" "list_all is_dec (nat_str (n div 10))"
      "digits_value (nat_str (n div 10)) = n div 10" using 1 by simp_all
    have d: "is_dec (digit_char (n mod 10))" by (simp add: is_dec_def of_char_digit)
    have f: "filter is_dec (nat_str (n div 10)) = nat_str (n div 10)"
      using IH(2) by (simp add: list_all_iff)
    have "digits_value (nat_str (n div 10) @ [digit_char (n mod 10)]) = 10 * (n div 10) + n mod 10"
      using IH(3) d f by (simp add: digits_value_def of_char_digit)
    then show ?thesis using False IH d by (simp add: nat_str.simps [of n])
  qed
qed

lemma split_at_char_absent: "c \<notin> set s \<Longrightarrow> split_at_char c s = [s]"
  by (induction s) auto

lemma py_strip_id:
  assumes "s \<noteq> []" "\<not> is_py_space (hd s)" "\<not> is_py_space (last s)"
  shows "py_strip s = s"
proof -
  have "dropWhile is_py_space s = s" using assms(1,2) by (cases s) simp_all
  moreover have "dropWhile is_py_space (rev s) = rev s"
    using assms(1,3) by (cases "rev s") (simp_all add: hd_rev [symmetric])
  ultimately show ?thesis by (simp add: py_strip_def)
qed

lemma dec_not_space: "is_dec c \<Longrightarrow> \<not> is_py_space c"
  by (simp add: is_dec_def is_py_space_def Let_def)

lemma dec_not_sign: "is_dec c \<Longrightarrow> c \<noteq> CHR ''-'' \<and> c \<noteq> CHR ''+'' \<and> c \<noteq> CHR ''_''"
  by (auto simp: is_dec_def)

lemma nat_str_parse:
  "digit_part (nat_str n) \<and> split_sign (nat_str n) = (1, nat_str n)
   \<and> \<not> is_py_space (hd (nat_str n)) \<and> \<not> is_py_space (last (nat_str n))"
proof -
  have ne: "nat_str n \<noteq> []" and dec: "list_all is_dec (nat_str n)"
    using nat_str_props by blast+
  then have hd: "is_dec (hd (nat_str n))" and lst: "is_dec (last (nat_str n))"
    by (simp_all add: list_all_iff)
  have "CHR ''_'' \<notin> set (nat_str n)" using dec dec_not_sign by (fastforce simp: list_all_iff)
  then have "digit_part (nat_str n)"
    using ne dec by (simp add: digit_part_def split_at_char_absent)
  moreover have "split_sign (nat_str n) = (1, nat_str n)"
    using ne hd dec_not_sign by (cases "nat_str n") (simp_all add: split_sign_def)
  ultimately show ?thesis using hd lst dec_not_space by blast
qed

text \<open>Every integer printed in the bbox reads back with Python's int() parser as the same integer.\<close>

theorem int_repr_read_back: "parse_int (int_repr i) = Some i"
proof (cases "i < 0")
  case True
  have "py_strip (CHR ''-'' # nat_str (nat (- i))) = CHR ''-'' # nat_str (nat (- i))"
    using nat_str_parse [of "nat (- i)"] nat_str_props [of "nat (- i)"]
    by (intro py_strip_id) (simp_all add: is_py_space_def)
  then show ?thesis
    using True nat_str_parse [of "nat (- i)"] nat_str_props [of "nat (- i)"]
    by (simp add: parse_int_def int_repr_def split_sign_def)
next
  case False
  have "py_strip (nat_str (nat i)) = nat_str (nat i)"
    using nat_str_parse [of "nat i"] nat_str_props [of "nat i"] by (intro py_strip_id) simp_all
  then show ?thesis
    using False nat_str_parse [of "nat i"] nat_str_props [of "nat i"]
    by (simp add: parse_int_def int_repr_def)
qed

end
