(* ===== verification/EntryPoint.thy ===== *)
theory EntryPoint
  imports Preprocess Recognition Json
begin

text \<open>
  The entry point \<^verbatim>\<open>main\<close> (lines 51--96 of \<^verbatim>\<open>src/python-ocr/ocr_service.py\<close>)
  and the process it runs. What the process sees of its environment is the record
  \<open>sys_env\<close>: the argument vector, whether \<^verbatim>\<open>sys.stdout.reconfigure\<close> succeeds, and
  which texts the original encoding of standard output cannot encode. What it shows is the
  record \<open>outcome\<close>: the text written to standard output (as characters, before encoding), what goes to standard error (the usage
  line, or the traceback of an uncaught exception, whose last line names the exception),
  and the exit status, 1 for \<^verbatim>\<open>sys.exit(1)\<close> and for an uncaught exception.
\<close>

record sys_env =
  argv :: "string list"
  reconfigure_ok :: bool
  default_encode_error :: "string \<Rightarrow> string option"

datatype stderr_out = NoStderr | StderrLine string | Traceback pyerr

record outcome =
  stdout :: string
  stderr :: stderr_out
  exit_status :: int

definition newline :: char where "newline = CHR 0x0A"

text \<open>Every encoding a console uses encodes ASCII.\<close>

definition ascii_safe :: "sys_env \<Rightarrow> bool" where
  "ascii_safe env \<longleftrightarrow> (\<forall>s. list_all (\<lambda>c. of_char c < (128::nat)) s \<longrightarrow> default_encode_error env s = None)"

text \<open>
  Line 96, \<^verbatim>\<open>print(text)\<close>: after a successful \<^verbatim>\<open>reconfigure\<close> (lines 53--56)
  standard output is UTF-8 and takes any text; otherwise the original encoding may refuse
  it, and the exception is raised before anything is written.
\<close>

definition print_stdout :: "sys_env \<Rightarrow> string \<Rightarrow> string res" where
  "print_stdout env text =
     (if reconfigure_ok env then Inr (text @ [newline])
      else case default_encode_error env text of
             None \<Rightarrow> Inr (text @ [newline])
           | Some msg \<Rightarrow> Inl (UnicodeEncodeError msg))"

text \<open>Lines 64--93: preprocessing, recognition and formatting, in this order.\<close>

definition pipeline :: "'img cv2 \<Rightarrow> ('img, 'r) easyocr \<Rightarrow> string \<Rightarrow> out_rec list res" where
  "pipeline cv ocr image_path =
     bind_res (minimal_preprocess cv image_path) (\<lambda>processed.
     bind_res (run_easyocr ocr processed) (\<lambda>ocr_results.
       format_results ocr_results))"

definition usage_outcome :: outcome where
  "usage_outcome = \<lparr>stdout = [], stderr = StderrLine ''Usage: ocr_service.py <IMAGE_PATH>'',
                    exit_status = 1\<rparr>"

definition uncaught :: "pyerr \<Rightarrow> outcome" where
  "uncaught e = \<lparr>stdout = [], stderr = Traceback e, exit_status = 1\<rparr>"

definition main :: "'img cv2 \<Rightarrow> ('img, 'r) easyocr \<Rightarrow> sys_env \<Rightarrow> outcome" where
  "main cv ocr env =
     (if length (argv env) < 2 then usage_outcome
      else case bind_res (pipeline cv ocr (argv env ! 1)) (\<lambda>output_data.
                  print_stdout env (json_dumps output_data)) of
             Inl e \<Rightarrow> uncaught e
           | Inr out \<Rightarrow> \<lparr>stdout = out, stderr = NoStderr, exit_status = 0\<rparr>)"

text \<open>The process started as \<^verbatim>\<open>ocr_service.py path\<close> on a UTF-8 console.\<close>

definition run_env :: "string \<Rightarrow> sys_env" where
  "run_env path = \<lparr>argv = [''ocr_service.py'', path], reconfigure_ok = True,
                   default_encode_error = (\<lambda>s. None)\<rparr>"

section \<open>Exit status and output\<close>

text \<open>The process ends with status 0 or 1, and prints nothing on failure.\<close>

lemma main_cases:
  "main cv ocr env = usage_outcome
   \<or> (\<exists>e. main cv ocr env = uncaught e)
   \<or> (\<exists>out. main cv ocr env = \<lparr>stdout = out, stderr = NoStderr, exit_status = 0\<rparr>)"
  by (auto simp: main_def split: sum.split)

text \<open>C2: The exit status is always 0 or 1, and whenever it is not 0 nothing at all has been written to stdout (no partial JSON).\<close>

theorem main_all_or_nothing:
  "exit_status (main cv ocr env) \<in> {0, 1}
   \<and> (exit_status (main cv ocr env) \<noteq> 0 \<longrightarrow> stdout (main cv ocr env) = [])"
  using main_cases [of cv ocr env] by (auto simp: usage_outcome_def uncaught_def)

text \<open>C1: Success exactly when the pipeline succeeds and the JSON text can be printed.\<close>

theorem main_success_iff:
  "exit_status (main cv ocr env) = 0 \<longleftrightarrow>
     2 \<le> length (argv env)
     \<and> (\<exists>output_data. pipeline cv ocr (argv env ! 1) = Inr output_data
          \<and> stdout (main cv ocr env) = json_dumps output_data @ [newline]
          \<and> (reconfigure_ok env \<or> default_encode_error env (json_dumps output_data) = None))"
  by (auto simp: main_def usage_outcome_def uncaught_def print_stdout_def bind_res_eq_Inr
           split: sum.split option.splits if_splits)

text \<open>C11: With fewer than two entries in sys.argv the process writes only the usage line to stderr and exits 1, stdout empty.\<close>

theorem main_usage:
  assumes "length (argv env) < 2"
  shows "main cv ocr env = \<lparr>stdout = [], stderr = StderrLine ''Usage: ocr_service.py <IMAGE_PATH>'',
                              exit_status = 1\<rparr>"
  using assms by (simp add: main_def usage_outcome_def)

text \<open>An exception of any stage ends the process with its traceback.\<close>

theorem main_uncaught:
  assumes "2 \<le> length (argv env)" "pipeline cv ocr (argv env ! 1) = Inl e"
  shows "main cv ocr env = \<lparr>stdout = [], stderr = Traceback e, exit_status = 1\<rparr>"
  using assms by (simp add: main_def uncaught_def)

text \<open>C12: An unreadable image path ends the process with a ValueError traceback naming the path, exit status 1 and nothing on stdout.\<close>

theorem main_load_error:
  assumes "2 \<le> length (argv env)" "imread cv (argv env ! 1) IMREAD_COLOR = None"
  shows "main cv ocr env =
           \<lparr>stdout = [], stderr = Traceback (ValueError (''Could not load image from: '' @ argv env ! 1)),
            exit_status = 1\<rparr>"
  using assms by (simp add: main_def uncaught_def pipeline_def minimal_preprocess_def)

text \<open>C13: An exception from constructing the EasyOCR reader propagates unchanged: the process exits 1 with its traceback and nothing on stdout.\<close>

theorem main_engine_error:
  assumes "2 \<le> length (argv env)" "minimal_preprocess cv (argv env ! 1) = Inr img"
    and "Reader ocr en_gpu_config = Inl e"
  shows "main cv ocr env = \<lparr>stdout = [], stderr = Traceback e, exit_status = 1\<rparr>"
  using assms by (simp add: main_def uncaught_def pipeline_def run_easyocr_def)

text \<open>C14: No detections: the process prints \<^verbatim>\<open>[]\<close>.\<close>

theorem main_no_detections:
  assumes "ascii_safe env" "2 \<le> length (argv env)" "minimal_preprocess cv (argv env ! 1) = Inr img"
    and "run_easyocr ocr img = Inr []"
  shows "main cv ocr env = \<lparr>stdout = ''[]'' @ [newline], stderr = NoStderr, exit_status = 0\<rparr>"
  using assms
  by (simp add: main_def pipeline_def format_results_def json_dumps_def print_stdout_def
           ascii_safe_def)

section \<open>Witnesses\<close>

definition failing_engine :: "('img, unit) easyocr" where
  "failing_engine = \<lparr>Reader = (\<lambda>cfg. Inl (EngineError ''model download failed'')),
                      readtext = (\<lambda>r img opts. Inr [])\<rparr>"

theorem main_all_or_nothing_witness:
  "exit_status (main shape_cv (const_engine []) (run_env ''missing.png'')) = 1
   \<and> stdout (main shape_cv (const_engine []) (run_env ''missing.png'')) = []"
proof -
  have "exit_status (main shape_cv (const_engine []) (run_env ''missing.png'')) = 1"
    by (simp add: main_def run_env_def shape_cv_def pipeline_def minimal_preprocess_def uncaught_def)
  then show ?thesis
    using main_all_or_nothing [of shape_cv "const_engine []" "run_env ''missing.png''"] by simp
qed

theorem main_usage_witness:
  "main shape_cv (const_engine []) \<lparr>argv = [''ocr_service.py''], reconfigure_ok = True,
                                    default_encode_error = (\<lambda>s. None)\<rparr>
   = \<lparr>stdout = [], stderr = StderrLine ''Usage: ocr_service.py <IMAGE_PATH>'', exit_status = 1\<rparr>"
  by (rule main_usage) simp

theorem main_load_error_witness:
  "main shape_cv (const_engine []) (run_env ''missing.png'') =
     \<lparr>stdout = [], stderr = Traceback (ValueError (''Could not load image from: '' @ ''missing.png'')),
      exit_status = 1\<rparr>"
  using main_load_error [of "run_env ''missing.png''" shape_cv "const_engine []"]
  by (simp add: run_env_def shape_cv_def)

lemma preprocess_page: "minimal_preprocess shape_cv ''page.png'' = Inr (427, 1199)"
  by code_simp

theorem main_engine_error_witness:
  "main shape_cv failing_engine (run_env ''page.png'') =
     \<lparr>stdout = [], stderr = Traceback (EngineError ''model download failed''), exit_status = 1\<rparr>"
  by (rule main_engine_error [where img = "(427, 1199)"])
     (simp_all add: run_env_def preprocess_page failing_engine_def)

theorem main_no_detections_witness:
  "main shape_cv (const_engine []) (run_env ''page.png'') =
     \<lparr>stdout = ''[]'' @ [newline], stderr = NoStderr, exit_status = 0\<rparr>"
  by (rule main_no_detections [where img = "(427, 1199)"])
     (simp_all add: run_env_def preprocess_page ascii_safe_def run_easyocr_def const_engine_def)

end
