(* ===== verification/Spec2Isabelle.thy ===== *)
theory Spec2Isabelle
  imports EntryPoint
begin

text \<open>
  A verification model of \<^verbatim>\<open>src/python-ocr/ocr_service.py\<close>, a one-shot command-line
  OCR service: \<^verbatim>\<open>main\<close> checks its argument, loads the image with OpenCV, upscales it
  when it is narrower than 1200 pixels and converts it to grey (\<^verbatim>\<open>minimal_preprocess\<close>),
  runs EasyOCR on it (\<^verbatim>\<open>run_easyocr\<close>), reshapes the engine's detections into records
  (the loop of lines 70--93) and prints them with \<^verbatim>\<open>json.dumps\<close>. The stages run in
  this order and an exception of any of them ends the process.

  \<^bold>\<open>Library.\<close>
  \<^item> \<open>Prelude\<close>: the Python exceptions as the datatype \<open>pyerr\<close>, fallible results
    \<open>'a res = pyerr + 'a\<close> with \<open>bind_res\<close>, the loop \<open>map_res\<close> that stops at the
    first exception, truncating division \<open>tdiv\<close>.
  \<^item> \<open>Float64\<close>: Python's \<^verbatim>\<open>float\<close> as IEEE binary64, a double being the dyadic
    \<open>Fin m e = m * 2 ^ e\<close> (or an infinity or NaN). Rounding to nearest-even
    (\<open>round_frac\<close>) uses integer \<open>div\<close>/\<open>mod\<close> only, so concrete cases evaluate in
    the kernel. Operations: \<^verbatim>\<open>int / int\<close>, \<^verbatim>\<open>float(int)\<close>, \<^verbatim>\<open>int * float\<close>,
    \<^verbatim>\<open>int(float)\<close>, \<^verbatim>\<open><\<close>. Lemmas: relative error at most \<open>2 ^ -53\<close> in
    the normal range; exact conversion of small ints; comparison and truncation agree with
    the exact rational values.
  \<^item> \<open>Preprocess\<close>: \<^verbatim>\<open>upscale_if_needed\<close> (lines 8--19) as \<open>target_size\<close>
    (lines 15--17) and \<open>upscale_if_needed\<close>; \<^verbatim>\<open>minimal_preprocess\<close> (lines 21--39).
    OpenCV is the interface record \<open>cv2\<close> with the contract \<open>cv2_contract\<close>;
    \<open>shape_cv\<close> is a concrete instance for witnesses.
  \<^item> \<open>PyValue\<close>: the values the engine returns (\<open>pyval\<close>) and the built-ins the
    formatter applies, with CPython's exception messages: \<^verbatim>\<open>isinstance\<close>,
    \<^verbatim>\<open>len\<close>, indexing, iteration, rich comparison, \<^verbatim>\<open>min\<close>, \<^verbatim>\<open>max\<close>,
    \<^verbatim>\<open>int()\<close>, \<^verbatim>\<open>float()\<close> (string parsing included).
  \<^item> \<open>Recognition\<close>: \<^verbatim>\<open>run_easyocr\<close> (lines 41--49) over the interface record
    \<open>easyocr\<close> of \<^verbatim>\<open>easyocr.Reader\<close> and \<^verbatim>\<open>readtext\<close>; \<open>paragraph_pairs\<close>
    states what EasyOCR returns in paragraph mode; \<open>const_engine\<close> is a concrete engine.
  \<^item> \<open>Formatter\<close>: the record \<open>out_rec\<close> of lines 89--93, the loop body
    \<open>format_detection\<close> (lines 72--93, in the source's order of evaluation) and the loop
    \<open>build_output\<close>/\<open>format_results\<close> (lines 70--93).
  \<^item> \<open>Json\<close>: \<^verbatim>\<open>json.dumps(output_data, ensure_ascii=False)\<close> of line 96 as
    CPython's encoder writes it: separators \<^verbatim>\<open>', '\<close> and \<^verbatim>\<open>': '\<close>, integers
    in decimal, floats by \<^verbatim>\<open>float.__repr__\<close> (the shortest decimal in the double's
    rounding interval, laid out as \<^verbatim>\<open>format_float_short\<close> does) or
    \<^verbatim>\<open>NaN\<close>/\<^verbatim>\<open>Infinity\<close>, strings with only quote, backslash and control
    characters escaped; and a JSON string reader.
  \<^item> \<open>EntryPoint\<close>: \<^verbatim>\<open>main\<close> (lines 51--96) as a function from the environment
    \<open>sys_env\<close> (argument vector, whether \<^verbatim>\<open>sys.stdout.reconfigure\<close> succeeds,
    what the stream's original encoding refuses) to the \<open>outcome\<close> (stdout, stderr,
    exit status); \<open>pipeline\<close> composes the three stages.
  \<^item> This theory: concrete end-to-end runs and the properties spanning components.

  \<^bold>\<open>What is shown.\<close> The exit status is 0 exactly when every stage succeeds and the
  text can be printed, and then stdout is the JSON of the records; otherwise it is 1 and
  stdout is empty (no partial output). The formatter is the map of its body over the
  detections, dropping the skipped ones and failing with the first exception; on a
  well-formed polygon it produces the exact truncated box. Texts and integers printed in
  the JSON read back unchanged. The spec's scenario prints exactly the expected line. The
  scale arithmetic keeps the new width within one of the minimum width and the height within
  a quarter of the exact product before truncation.

  \<^bold>\<open>Findings.\<close> Width 281 is upscaled to 1199, not to at least 1200 (a float product
  truncated just below an integer). With string coordinates the box can be inverted. The
  code truncates negative coordinates where the spec says floor. Paragraph mode makes every
  printed confidence 1.0, although the spec says confidences are requested. A non-finite
  confidence is printed as \<^verbatim>\<open>NaN\<close>, which is not JSON.

  \<^bold>\<open>Bounds.\<close> The scale bounds \<open>c \<le> 2 ^ 49\<close> and \<open>h * c \<le> 2 ^ 49 * w\<close> keep the
  float products below \<open>2 ^ 52\<close> with a margin for two roundings; real images are far
  inside them. The digit search of \<open>float.__repr__\<close> tries 17 positions, as 17
  significant digits identify every double.

  \<^bold>\<open>Not modelled.\<close> OpenCV's decoding and resampling and EasyOCR's recognition are
  external libraries, present only through their interfaces and the contract the program
  relies on. Characters are code points below 256 (HOL's \<open>char\<close>); negative zero is not
  distinguished from zero; the frames of a traceback are not modelled, only the exception
  it ends with; the import lines 1--6 have no behaviour to model.
\<close>

section \<open>Concrete runs\<close>

text \<open>
  Engines for the runs: \<open>spec_engine\<close> returns the spec's detection with a confidence,
  \<open>pair_engine\<close> the same block as EasyOCR reports it in paragraph mode, without one,
  \<open>nan_engine\<close> a detection whose confidence is the string \<^verbatim>\<open>nan\<close>. The process is
  started as \<^verbatim>\<open>ocr_service.py page.png\<close> (\<open>run_env\<close>).
\<close>

definition spec_engine :: "('img, unit) easyocr" where
  "spec_engine = const_engine [hi_detection]"

definition pair_engine :: "('img, unit) easyocr" where
  "pair_engine = const_engine [hi_pair]"

definition nan_engine :: "('img, unit) easyocr" where
  "nan_engine = const_engine [PyList [hi_polygon, PyStr ''Hi'', PyStr ''nan'']]"

text \<open>The spec's scenario of section 8 end to end: the image is read and upscaled, the engine returns the spec's detection, and the process prints exactly the expected JSON line and exits 0.\<close>

theorem main_spec_scenario:
  \<open>main shape_cv spec_engine (run_env ''page.png'') =
     \<lparr>stdout = ''[{"text": "Hi", "confidence": 0.87, "bbox": [10, 20, 50, 40]}]'' @ [newline],
      stderr = NoStderr, exit_status = 0\<rparr>\<close>
  by code_simp

text \<open>A detection whose confidence is the string 'nan' is printed with the bare token NaN and exit status 0: the output is not valid JSON.\<close>

theorem main_nan_scenario:
  \<open>main shape_cv nan_engine (run_env ''page.png'') =
     \<lparr>stdout = ''[{"text": "Hi", "confidence": NaN, "bbox": [10, 20, 50, 40]}]'' @ [newline],
      stderr = NoStderr, exit_status = 0\<rparr>\<close>
  by code_simp

text \<open>The spec's block reported as a [box, text] pair, as in paragraph mode, is printed with confidence 1.0.\<close>

theorem main_pair_scenario:
  \<open>main shape_cv pair_engine (run_env ''page.png'') =
     \<lparr>stdout = ''[{"text": "Hi", "confidence": 1.0, "bbox": [10, 20, 50, 40]}]'' @ [newline],
      stderr = NoStderr, exit_status = 0\<rparr>\<close>
  by code_simp

text \<open>
  A console whose encoding is ASCII: the reconfiguration is refused and any non-ASCII
  character makes \<^verbatim>\<open>print\<close> raise.
\<close>

definition ascii_console :: "string \<Rightarrow> sys_env" where
  "ascii_console path = \<lparr>argv = [''ocr_service.py'', path], reconfigure_ok = False,
     default_encode_error = (\<lambda>s. if list_all (\<lambda>c. of_char c < (128::nat)) s then None
                                  else Some ''ascii codec cannot encode character'')\<rparr>"

definition accent_engine :: "('img, unit) easyocr" where
  "accent_engine = const_engine [PyList [hi_polygon, PyStr [CHR 0xE9]]]"

text \<open>On a console whose encoding is ASCII and cannot be reconfigured, a recognised non-ASCII character makes print raise UnicodeEncodeError: exit status 1 and no output.\<close>

theorem main_encode_error_scenario:
  "main shape_cv accent_engine (ascii_console ''page.png'') =
     \<lparr>stdout = [], stderr = Traceback (UnicodeEncodeError ''ascii codec cannot encode character''),
      exit_status = 1\<rparr>"
  by code_simp

section \<open>Paragraph mode and the confidence\<close>

text \<open>
  C3: The program asks EasyOCR for paragraphs (line 48). An engine that, as EasyOCR does in
  that mode, returns \<^verbatim>\<open>[box, text]\<close> pairs makes every record of the output carry
  the default confidence \<open>1.0\<close> of line 81: the confidences the spec says are requested
  never reach the output.
\<close>

theorem paragraph_mode_confidence:
  assumes pp: "paragraph_pairs ocr" and ok: "pipeline cv ocr path = Inr output_data"
  shows "list_all (\<lambda>d. out_confidence d = Fin 1 0) output_data"
proof -
  obtain img rs where rs: "run_easyocr ocr img = Inr rs" and fr: "format_results rs = Inr output_data"
    using ok by (auto simp: pipeline_def bind_res_eq_Inr)
  have pairs: "list_all (\<lambda>d. is_list_or_tuple d \<and> length (seq_items d) = 2) rs"
    using run_easyocr_pairs [OF pp rs] .
  show ?thesis unfolding list_all_iff
  proof
    fix d assume "d \<in> set output_data"
    then obtain r where "r \<in> set rs" "format_detection r = Inr (Some d)"
      using format_results_records [OF fr] by blast
    with pairs show "out_confidence d = Fin 1 0"
      by (auto simp: list_all_iff format_detection_def bind_res_eq_Inr)
  qed
qed

theorem paragraph_mode_confidence_witness:
  "list_all (\<lambda>d. out_confidence d = Fin 1 0)
     [\<lparr>out_text = PyStr ''Hi'', out_confidence = Fin 1 0, out_bbox = [10, 20, 50, 40]\<rparr>]"
proof (rule paragraph_mode_confidence [where ocr = pair_engine and cv = shape_cv and path = "''page.png''"])
  show "paragraph_pairs pair_engine"
    by (simp add: paragraph_pairs_def pair_engine_def const_engine_def hi_pair_def)
  show "pipeline shape_cv pair_engine ''page.png'' =
          Inr [\<lparr>out_text = PyStr ''Hi'', out_confidence = Fin 1 0, out_bbox = [10, 20, 50, 40]\<rparr>]"
    by code_simp
qed

end
